theory Spec2Isabelle
  imports Complex_Main
begin

text \<open>
  A shallow embedding of the carrier integration service: the OAuth client-credentials
  token manager (auth/oauth.ts), the UPS rating adapter (carriers/ups/adapter.ts) and the
  facade that fans a request out to the configured carriers. Asynchronous functions are
  functions on an explicit state; a rejected promise or a thrown error is the left side of
  a sum. The token manager is modelled twice: as a function for one caller running alone,
  used by the adapter, and as a step function on events for callers that interleave.
  A string is a list of UTF-16 code units below 256, one \<open>char\<close> each, so that its length
  is the length JavaScript counts.
\<close>

section \<open>Errors (domain/errors.ts)\<close>

datatype ErrorCode =
    AUTH_FAILED
  | RATE_LIMITED
  | INVALID_REQUEST
  | CARRIER_UNAVAILABLE
  | MALFORMED_RESPONSE
  | NETWORK_ERROR
  | TIMEOUT

text \<open>
  A thrown value: a plain JavaScript \<^verbatim>\<open>Error\<close> with its message, a
  \<^verbatim>\<open>TypeError\<close> with its message (what the engine throws when a property of
  \<^verbatim>\<open>null\<close> is read; \<^verbatim>\<open>fetch\<close> rejects with one too), or a
  \<^verbatim>\<open>CarrierIntegrationError\<close> with its code, message and optional cause. All three are
  instances of \<^verbatim>\<open>Error\<close>. A rejected promise or a \<^verbatim>\<open>throw\<close> is the \<open>Inl\<close> side of
  a sum.
\<close>

datatype js_error =
    Error string
  | TypeError string
  | CarrierIntegrationError ErrorCode string "js_error option"

fun code :: "js_error \<Rightarrow> ErrorCode option" where
  "code (Error m) = None"
| "code (TypeError m) = None"
| "code (CarrierIntegrationError c m cause) = Some c"

fun message :: "js_error \<Rightarrow> string" where
  "message (Error m) = m"
| "message (TypeError m) = m"
| "message (CarrierIntegrationError c m cause) = m"

fun instanceof_CarrierIntegrationError :: "js_error \<Rightarrow> bool" where
  "instanceof_CarrierIntegrationError (Error m) = False"
| "instanceof_CarrierIntegrationError (TypeError m) = False"
| "instanceof_CarrierIntegrationError (CarrierIntegrationError c m cause) = True"

text \<open>
  The message of the \<^verbatim>\<open>TypeError\<close> for reading property \<open>p\<close> of \<^verbatim>\<open>null\<close>, and for
  destructuring property \<open>p\<close> out of the expression \<open>e\<close> that is \<^verbatim>\<open>null\<close>, in the
  wording of Node's engine.
\<close>

definition read_of_null :: "string \<Rightarrow> js_error" where
  "read_of_null p = TypeError (''Cannot read properties of null (reading '' @ [CHR 0x27] @ p @ [CHR 0x27] @ '')'')"

definition destructure_of_null :: "string \<Rightarrow> string \<Rightarrow> js_error" where
  "destructure_of_null p e =
     TypeError (''Cannot destructure property '' @ [CHR 0x27] @ p @ [CHR 0x27] @ '' of ''
                @ [CHR 0x27] @ e @ [CHR 0x27] @ '' as it is null.'')"

section \<open>JavaScript primitives used by the code\<close>

text \<open>Truthiness of an optional string: \<^verbatim>\<open>undefined\<close> and \<^verbatim>\<open>''\<close> are falsy.\<close>

fun truthy_string :: "string option \<Rightarrow> bool" where
  "truthy_string None = False"
| "truthy_string (Some s) = (s \<noteq> [])"

text \<open>Truthiness of an optional number: \<^verbatim>\<open>undefined\<close> and \<^verbatim>\<open>0\<close> are falsy.\<close>

fun truthy_number :: "int option \<Rightarrow> bool" where
  "truthy_number None = False"
| "truthy_number (Some n) = (n \<noteq> 0)"

text \<open>\<^verbatim>\<open>a || b\<close> on optional strings.\<close>

definition or_string :: "string option \<Rightarrow> string option \<Rightarrow> string option" where
  "or_string a b = (if truthy_string a then a else b)"

text \<open>Decimal rendering of an integer, as a template literal renders an integral number.\<close>

fun nat_digits :: "nat \<Rightarrow> string" where
  "nat_digits n =
     (if n < 10 then [''0123456789'' ! n]
      else nat_digits (n div 10) @ [''0123456789'' ! (n mod 10)])"

declare nat_digits.simps [simp del]

definition int_toString :: "int \<Rightarrow> string" where
  "int_toString i = (if i < 0 then CHR ''-'' # nat_digits (nat (- i)) else nat_digits (nat i))"

section \<open>HTTP client abstraction (http/client.ts)\<close>

text \<open>
  The wire form of the rating request, built by \<^verbatim>\<open>transformRequest\<close>
  (carriers/ups/types.ts, \<^verbatim>\<open>UPSRateRequest\<close>), with the one-field objects
  (\<^verbatim>\<open>PackagingType.Code\<close>, \<^verbatim>\<open>UnitOfMeasurement.Code\<close>, \<^verbatim>\<open>Request.RequestOption\<close>)
  kept as their field. It is one of the two bodies a request carries. The optional
  \<^verbatim>\<open>timeout\<close> of a request is never set by the callers modelled here and is left out.
\<close>

record UPSAddress =
  AddressLine :: "string list option"
  City :: string
  StateProvinceCode :: string
  PostalCode :: string
  CountryCode :: string

record UPSDimensions =
  dim_UnitOfMeasurement :: string
  Length :: string
  Width :: string
  Height :: string

record UPSPackageWeight =
  pw_UnitOfMeasurement :: string
  Weight :: string

record UPSPackage =
  PackagingType :: string
  Dimensions :: "UPSDimensions option"
  PackageWeight :: UPSPackageWeight

record UPSRateRequest =
  RequestOption :: string
  ShipperNumber :: "string option"
  Shipper_Address :: UPSAddress
  ShipTo_Address :: UPSAddress
  Package :: "UPSPackage list"

datatype request_body =
    FormParams "(string \<times> string) list"
  | JsonBody UPSRateRequest

record HttpRequest =
  url :: string
  http_method :: string
  req_headers :: "(string \<times> string) list"
  req_body :: request_body

record 'b HttpResponse =
  status :: int
  headers :: "(string \<times> string) list"
  body :: 'b

text \<open>
  The outcome of \<^verbatim>\<open>httpClient.request\<close>: the promise rejects (\<open>Inl\<close>) or
  resolves with a response (\<open>Inr\<close>). \<^verbatim>\<open>NodeHttpClient\<close> rejects with
  \<^verbatim>\<open>new Error('Request timeout')\<close> when its timer aborts the request, and with the
  error of \<^verbatim>\<open>fetch\<close> otherwise. The body of a response is what \<^verbatim>\<open>response.json()\<close>
  or \<^verbatim>\<open>response.text()\<close> gives, cast unchecked to the type the caller asks for
  (\<^verbatim>\<open>request<T>\<close>): \<open>None\<close> is the JSON value \<^verbatim>\<open>null\<close>, and \<open>Some b\<close> a value whose
  properties can be read, every field of \<open>b\<close> optional (a text, number or array body
  reads as a value with every field absent).
\<close>

type_synonym 'b http_outcome = "js_error + 'b option HttpResponse"

section \<open>OAuth client (auth/oauth.ts)\<close>

record OAuthToken =
  accessToken :: string
  expiresAt :: int
  tokenType :: string

record OAuthConfig =
  tokenUrl :: string
  clientId :: string
  clientSecret :: string
  scope :: "string option"

text \<open>
  The body of the token endpoint's response, every field optional on the wire. Clock
  readings, expiry instants (milliseconds) and \<^verbatim>\<open>expires_in\<close> (seconds) are integral.
\<close>

record token_response =
  access_token :: "string option"
  token_type :: "string option"
  expires_in :: "int option"

definition bufferMs :: int where
  "bufferMs = 60000"

definition isTokenValid :: "int \<Rightarrow> OAuthToken \<Rightarrow> bool" where
  "isTokenValid now token = (now < expiresAt token - bufferMs)"

text \<open>
  \<^verbatim>\<open>acquireToken\<close>, up to its \<^verbatim>\<open>await\<close>: the form parameters and the request.
\<close>

definition acquireToken_params :: "OAuthConfig \<Rightarrow> (string \<times> string) list" where
  "acquireToken_params config =
     (let params = [(''grant_type'', ''client_credentials''),
                    (''client_id'', clientId config),
                    (''client_secret'', clientSecret config)]
      in if truthy_string (scope config) then params @ [(''scope'', the (scope config))]
         else params)"

definition acquireToken_request :: "OAuthConfig \<Rightarrow> HttpRequest" where
  "acquireToken_request config =
     \<lparr> url = tokenUrl config,
       http_method = ''POST'',
       req_headers = [(''Content-Type'', ''application/x-www-form-urlencoded'')],
       req_body = FormParams (acquireToken_params config) \<rparr>"

text \<open>
  \<^verbatim>\<open>acquireToken\<close>, after its \<^verbatim>\<open>await\<close>: the body of the \<^verbatim>\<open>try\<close> block on the
  outcome of the transport, with \<open>now\<close> the reading of \<^verbatim>\<open>Date.now()\<close> at that
  moment, then the \<^verbatim>\<open>catch\<close> handler. Destructuring a \<^verbatim>\<open>null\<close> body throws a
  \<^verbatim>\<open>TypeError\<close> inside the \<^verbatim>\<open>try\<close> block.
\<close>

definition acquireToken_try :: "token_response http_outcome \<Rightarrow> int \<Rightarrow> js_error + OAuthToken" where
  "acquireToken_try outcome now =
     (case outcome of
        Inl error \<Rightarrow> Inl error
      | Inr response \<Rightarrow>
          if status response \<noteq> 200 then
            Inl (CarrierIntegrationError AUTH_FAILED
                   (''OAuth token request failed with status '' @ int_toString (status response))
                   (Some (Error (''HTTP '' @ int_toString (status response)))))
          else
            (case body response of
               None \<Rightarrow> Inl (destructure_of_null ''access_token'' ''response.body'')
             | Some b \<Rightarrow>
                 if \<not> truthy_string (access_token b) \<or> \<not> truthy_number (expires_in b) then
                   Inl (CarrierIntegrationError MALFORMED_RESPONSE
                          ''OAuth response missing required fields''
                          (Some (Error ''Invalid OAuth response structure'')))
                 else
                   Inr \<lparr> accessToken = the (access_token b),
                         expiresAt = now + the (expires_in b) * 1000,
                         tokenType = the (or_string (token_type b) (Some ''Bearer'')) \<rparr>))"

definition acquireToken_catch :: "js_error \<Rightarrow> js_error" where
  "acquireToken_catch error =
     (if instanceof_CarrierIntegrationError error then error
      else CarrierIntegrationError AUTH_FAILED ''Failed to acquire OAuth token'' (Some error))"

definition acquireToken_settle :: "token_response http_outcome \<Rightarrow> int \<Rightarrow> js_error + OAuthToken" where
  "acquireToken_settle outcome now =
     (case acquireToken_try outcome now of
        Inl error \<Rightarrow> Inl (acquireToken_catch error)
      | Inr token \<Rightarrow> Inr token)"

section \<open>JavaScript numbers and \<^verbatim>\<open>parseFloat\<close>\<close>

text \<open>
  A JavaScript number: \<^verbatim>\<open>NaN\<close>, an infinity with its sign (\<open>True\<close> is negative), or
  a finite double, held as the rational it denotes. The sign of zero is not represented.
\<close>

datatype js_number = NaN | Infinity bool | Finite rat

definition isNaN :: "js_number \<Rightarrow> bool" where
  "isNaN n = (n = NaN)"

fun negate :: "js_number \<Rightarrow> js_number" where
  "negate NaN = NaN"
| "negate (Infinity neg) = Infinity (\<not> neg)"
| "negate (Finite r) = Finite (- r)"

text \<open>
  The Number value of a positive rational \<open>n / d\<close>: the nearest double, ties to the even
  significand, with the subnormal range below 2 to the power -1022 and infinity from 2 to
  the power 1024 on. \<open>log2floor n\<close> is the position of the leading bit of \<open>n\<close>, and
  \<open>binary_exponent n d\<close> the integer \<open>e\<close> such that \<open>n / d\<close> lies between 2 to the
  power \<open>e\<close> and 2 to the power \<open>e + 1\<close>.
\<close>

function log2floor :: "int \<Rightarrow> int" where
  "log2floor n = (if n < 2 then 0 else 1 + log2floor (n div 2))"
  by pat_completeness auto
termination
  by (relation "measure nat") auto

declare log2floor.simps [simp del]

definition scaled_le :: "int \<Rightarrow> int \<Rightarrow> int \<Rightarrow> bool" where
  "scaled_le d k n = (if 0 \<le> k then d * 2 ^ nat k \<le> n else d \<le> n * 2 ^ nat (- k))"

definition binary_exponent :: "int \<Rightarrow> int \<Rightarrow> int" where
  "binary_exponent n d =
     (let k = log2floor n - log2floor d
      in if scaled_le d k n then k else k - 1)"

definition scale2 :: "rat \<Rightarrow> int \<Rightarrow> rat" where
  "scale2 m s = (if 0 \<le> s then m * 2 ^ nat s else m / 2 ^ nat (- s))"

definition round_to_double :: "int \<Rightarrow> int \<Rightarrow> js_number" where
  "round_to_double n d =
     (if n = 0 then Finite 0
      else
        let e = max (binary_exponent n d) (- 1022);
            s = e - 52;
            num = (if s < 0 then n * 2 ^ nat (- s) else n);
            den = (if s < 0 then d else d * 2 ^ nat s);
            q = num div den;
            r = num mod den;
            m = (if den < 2 * r \<or> (2 * r = den \<and> odd q) then q + 1 else q)
        in if 971 \<le> s \<and> 2 ^ 1024 \<le> m * 2 ^ nat s then Infinity False
           else Finite (scale2 (rat_of_int m) s))"

text \<open>The Number value of the decimal \<open>m\<close> times 10 to the power \<open>e\<close>, for \<open>m \<ge> 0\<close>.\<close>

definition decimal_to_double :: "int \<Rightarrow> int \<Rightarrow> js_number" where
  "decimal_to_double m e =
     (if 0 \<le> e then round_to_double (m * 10 ^ nat e) 1 else round_to_double m (10 ^ nat (- e)))"

text \<open>
  White space and line terminators among the code units below 256: tab, line feed,
  vertical tab, form feed, carriage return, space and no-break space.
\<close>

definition isWhiteSpace :: "char \<Rightarrow> bool" where
  "isWhiteSpace c = ((of_char c :: nat) \<in> {9, 10, 11, 12, 13, 32, 160})"

definition isDigit :: "char \<Rightarrow> bool" where
  "isDigit c = (48 \<le> (of_char c :: nat) \<and> (of_char c :: nat) \<le> 57)"

definition digits_value :: "string \<Rightarrow> int" where
  "digits_value ds = foldl (\<lambda>acc c. 10 * acc + (int (of_char c) - 48)) 0 ds"

text \<open>
  The optional exponent part at the head of what follows the mantissa: an exponent
  indicator, an optional sign and at least one digit; anything else is no exponent.
\<close>

definition parse_exponent :: "string \<Rightarrow> int" where
  "parse_exponent r =
     (case r of
        [] \<Rightarrow> 0
      | c # r' \<Rightarrow>
          if c = CHR ''e'' \<or> c = CHR ''E'' then
            (case r' of
               [] \<Rightarrow> 0
             | sg # r'' \<Rightarrow>
                 if sg = CHR ''-'' then - digits_value (takeWhile isDigit r'')
                 else if sg = CHR ''+'' then digits_value (takeWhile isDigit r'')
                 else digits_value (takeWhile isDigit r'))
          else 0)"

text \<open>
  \<^verbatim>\<open>parseFloat\<close> of ECMAScript: leading white space is skipped, the longest prefix
  that is a decimal literal is read (sign, \<^verbatim>\<open>Infinity\<close>, digits with an optional
  fraction and exponent) and converted to its Number value, and \<^verbatim>\<open>NaN\<close> is the result
  when there is no such prefix.
\<close>

definition parseFloat :: "string \<Rightarrow> js_number" where
  "parseFloat inputString =
     (let trimmed = dropWhile isWhiteSpace inputString;
          neg = (trimmed \<noteq> [] \<and> hd trimmed = CHR ''-'');
          unsigned = (if trimmed \<noteq> [] \<and> (hd trimmed = CHR ''-'' \<or> hd trimmed = CHR ''+'')
                      then tl trimmed else trimmed)
      in if take 8 unsigned = ''Infinity'' then Infinity neg
         else
           let intPart = takeWhile isDigit unsigned;
               rest = dropWhile isDigit unsigned;
               hasDot = (rest \<noteq> [] \<and> hd rest = CHR ''.'');
               fracPart = (if hasDot then takeWhile isDigit (tl rest) else []);
               rest' = (if hasDot then dropWhile isDigit (tl rest) else rest)
           in if intPart = [] \<and> fracPart = [] then NaN
              else
                let magnitude = decimal_to_double (digits_value (intPart @ fracPart))
                                  (parse_exponent rest' - int (length fracPart))
                in if neg then negate magnitude else magnitude)"

section \<open>Domain types (domain/types.ts)\<close>

record Address =
  street :: "string list"
  city :: string
  stateOrProvince :: string
  postalCode :: string
  country :: string

record PackageDimensions =
  length_in :: rat
  width_in :: rat
  height_in :: rat

record Package =
  weight :: rat
  dimensions :: "PackageDimensions option"

record RateRequest =
  origin :: Address
  destination :: Address
  packages :: "Package list"
  serviceLevel :: "string option"

record RateQuote =
  carrier :: string
  quote_serviceLevel :: string
  serviceName :: string
  totalCost :: js_number
  currency :: string
  estimatedDays :: "js_number option"
  carrierQuoteId :: "string option"

section \<open>UPS wire response (carriers/ups/types.ts)\<close>

text \<open>
  \<^verbatim>\<open>UPSRateResponse\<close>, with the fields the adapter reads; every field is optional, and
  an absent field is \<open>None\<close>.
\<close>

record UPSResponseStatus =
  rs_Code :: "string option"
  rs_Description :: "string option"

record UPSAlert =
  al_Code :: "string option"
  al_Description :: "string option"

record UPSResponse =
  ResponseStatus :: "UPSResponseStatus option"
  Alert :: "UPSAlert list option"

record UPSService =
  sv_Code :: "string option"
  sv_Description :: "string option"

record UPSCharges =
  CurrencyCode :: "string option"
  MonetaryValue :: "string option"

record UPSGuaranteedDelivery =
  gd_Date :: "string option"
  gd_Time :: "string option"

record UPSRatedShipment =
  Service :: "UPSService option"
  TransportationCharges :: "UPSCharges option"
  TotalCharges :: "UPSCharges option"
  GuaranteedDelivery :: "UPSGuaranteedDelivery option"

record UPSRateResponseBody =
  Response :: "UPSResponse option"
  RatedShipment :: "UPSRatedShipment list option"

record UPSRateResponse =
  RateResponse :: "UPSRateResponseBody option"

section \<open>UPS adapter: response transformation (carriers/ups/adapter.ts)\<close>

text \<open>\<^verbatim>\<open>a || 'default'\<close> on an optional string.\<close>

definition or_default :: "string option \<Rightarrow> string \<Rightarrow> string" where
  "or_default a d = (if truthy_string a then the a else d)"

text \<open>\<^verbatim>\<open>Alert?.[0]?.Description\<close>\<close>

definition first_alert_description :: "UPSAlert list option \<Rightarrow> string option" where
  "first_alert_description alerts =
     (case alerts of
        None \<Rightarrow> None
      | Some [] \<Rightarrow> None
      | Some (a # _) \<Rightarrow> al_Description a)"

text \<open>\<^verbatim>\<open>Math.ceil(a / b)\<close> on integral operands.\<close>

definition Math_ceil_div :: "int \<Rightarrow> int \<Rightarrow> int" where
  "Math_ceil_div a b = \<lceil>real_of_int a / real_of_int b\<rceil>"

text \<open>
  The transit-day estimate from a truthy \<^verbatim>\<open>GuaranteedDelivery.Date\<close>. \<open>Date_parse\<close>
  is the platform's \<^verbatim>\<open>new Date(string).getTime()\<close>, \<open>None\<close> for an invalid date
  (\<^verbatim>\<open>NaN\<close>): then the difference and its ceiling are \<^verbatim>\<open>NaN\<close>, and
  \<^verbatim>\<open>NaN < 0\<close> is false.
\<close>

definition estimateDays :: "(string \<Rightarrow> int option) \<Rightarrow> int \<Rightarrow> string \<Rightarrow> js_number option" where
  "estimateDays Date_parse now date =
     (case Date_parse date of
        None \<Rightarrow> Some NaN
      | Some deliveryTime \<Rightarrow>
          let diffTime = deliveryTime - now;
              days = Math_ceil_div diffTime (1000 * 60 * 60 * 24)
          in if days < 0 then None else Some (Finite (rat_of_int days)))"

text \<open>
  The callback of \<^verbatim>\<open>RatedShipment.map\<close>. \<open>now\<close> is the clock reading while the
  synchronous transformation runs.
\<close>

definition transformShipment ::
  "(string \<Rightarrow> int option) \<Rightarrow> int \<Rightarrow> UPSRatedShipment \<Rightarrow> js_error + RateQuote" where
  "transformShipment Date_parse now shipment =
     (let serviceCode = or_default (Option.bind (Service shipment) sv_Code) ''UNKNOWN'';
          service_name = or_default (Option.bind (Service shipment) sv_Description) ''Unknown Service'';
          totalCharges = (case TotalCharges shipment of
                            Some c \<Rightarrow> Some c
                          | None \<Rightarrow> TransportationCharges shipment)
      in if \<not> truthy_string (Option.bind totalCharges MonetaryValue) then
           Inl (CarrierIntegrationError MALFORMED_RESPONSE
                  ''UPS response missing charge information'' None)
         else
           let monetaryValue = the (Option.bind totalCharges MonetaryValue);
               cost = parseFloat monetaryValue
           in if isNaN cost then
                Inl (CarrierIntegrationError MALFORMED_RESPONSE
                       (''Invalid cost value: '' @ monetaryValue) None)
              else
                Inr \<lparr> carrier = ''UPS'',
                      quote_serviceLevel = serviceCode,
                      serviceName = service_name,
                      totalCost = cost,
                      currency = or_default (Option.bind totalCharges CurrencyCode) ''USD'',
                      estimatedDays =
                        (if truthy_string (Option.bind (GuaranteedDelivery shipment) gd_Date)
                         then estimateDays Date_parse now
                                (the (Option.bind (GuaranteedDelivery shipment) gd_Date))
                         else None),
                      carrierQuoteId = Some (serviceCode @ ''-'' @ int_toString now) \<rparr>)"

text \<open>\<^verbatim>\<open>Array.prototype.map\<close> with a callback that may throw: the first throw ends it.\<close>

fun map_throwing :: "('a \<Rightarrow> js_error + 'b) \<Rightarrow> 'a list \<Rightarrow> js_error + 'b list" where
  "map_throwing f [] = Inr []"
| "map_throwing f (x # xs) =
     (case f x of
        Inl e \<Rightarrow> Inl e
      | Inr y \<Rightarrow> (case map_throwing f xs of Inl e \<Rightarrow> Inl e | Inr ys \<Rightarrow> Inr (y # ys)))"

text \<open>
  \<^verbatim>\<open>transformResponse\<close> on the body of a response. Reading \<^verbatim>\<open>RateResponse\<close> of a
  \<^verbatim>\<open>null\<close> body throws a \<^verbatim>\<open>TypeError\<close>.
\<close>

definition transformResponse ::
  "(string \<Rightarrow> int option) \<Rightarrow> int \<Rightarrow> UPSRateResponse option \<Rightarrow> js_error + RateQuote list" where
  "transformResponse Date_parse now response =
     (case response of
        None \<Rightarrow> Inl (read_of_null ''RateResponse'')
      | Some r \<Rightarrow>
          (case RateResponse r of
             None \<Rightarrow>
               Inl (CarrierIntegrationError MALFORMED_RESPONSE ''UPS response missing RateResponse'' None)
           | Some rateResponse \<Rightarrow>
               if Option.bind (Option.bind (Response rateResponse) ResponseStatus) rs_Code \<noteq> Some ''1'' then
                 (let description =
                        or_default
                          (or_string
                             (Option.bind (Option.bind (Response rateResponse) ResponseStatus) rs_Description)
                             (first_alert_description (Option.bind (Response rateResponse) Alert)))
                          ''Unknown UPS error''
                  in Inl (CarrierIntegrationError INVALID_REQUEST (''UPS API error: '' @ description) None))
               else
                 (case RatedShipment rateResponse of
                    None \<Rightarrow> Inr []
                  | Some shipments \<Rightarrow>
                      if length shipments = 0 then Inr []
                      else map_throwing (transformShipment Date_parse now) shipments)))"


text \<open>
  The carrier's description of a failure, in the order the specification gives:
  \<^verbatim>\<open>ResponseStatus.Description\<close>, else \<^verbatim>\<open>Alert[0].Description\<close>, else a generic text.
\<close>

definition carrier_description :: "UPSRateResponseBody \<Rightarrow> string" where
  "carrier_description rr =
     (let d1 = Option.bind (Option.bind (Response rr) ResponseStatus) rs_Description;
          d2 = first_alert_description (Option.bind (Response rr) Alert)
      in if truthy_string d1 then the d1
         else if truthy_string d2 then the d2
         else ''Unknown UPS error'')"

section \<open>UPS adapter: request transformation\<close>

record UPSConfig =
  baseUrl :: string
  shipperNumber :: "string option"

definition transformAddress :: "Address \<Rightarrow> UPSAddress" where
  "transformAddress address =
     \<lparr> AddressLine = (if length (street address) > 0 then Some (street address) else None),
       City = city address,
       StateProvinceCode = stateOrProvince address,
       PostalCode = postalCode address,
       CountryCode = country address \<rparr>"

text \<open>\<open>toString\<close> is \<^verbatim>\<open>Number.prototype.toString\<close> of the platform.\<close>

definition transformPackage :: "(rat \<Rightarrow> string) \<Rightarrow> Package \<Rightarrow> UPSPackage" where
  "transformPackage toString pkg =
     \<lparr> PackagingType = ''02'',
       Dimensions =
         (case dimensions pkg of
            None \<Rightarrow> None
          | Some d \<Rightarrow>
              Some \<lparr> dim_UnitOfMeasurement = ''IN'',
                     Length = toString (length_in d),
                     Width = toString (width_in d),
                     Height = toString (height_in d) \<rparr>),
       PackageWeight = \<lparr> pw_UnitOfMeasurement = ''LBS'', Weight = toString (weight pkg) \<rparr> \<rparr>"

definition transformRequest :: "(rat \<Rightarrow> string) \<Rightarrow> UPSConfig \<Rightarrow> RateRequest \<Rightarrow> UPSRateRequest" where
  "transformRequest toString config request =
     \<lparr> RequestOption = ''Rate'',
       ShipperNumber = (if truthy_string (shipperNumber config) then shipperNumber config else None),
       Shipper_Address = transformAddress (origin request),
       ShipTo_Address = transformAddress (destination request),
       Package = map (transformPackage toString) (packages request) \<rparr>"

section \<open>The running system: one OAuth client, its adapter and the outside world\<close>

text \<open>
  What the code takes from its platform and its collaborators. \<open>'w\<close> is the state of
  the outside world (network, clock, random source); each HTTP client maps a request and
  the world to the outcome of the request and the world after it. The clock is read from
  the world and stands still while synchronous code runs. The OAuth client and the adapter
  each hold an HTTP client of their own, typed by the body they expect.
\<close>

record 'w platform =
  oauth_httpClient :: "HttpRequest \<Rightarrow> 'w \<Rightarrow> token_response http_outcome \<times> 'w"
  ups_httpClient :: "HttpRequest \<Rightarrow> 'w \<Rightarrow> UPSRateResponse http_outcome \<times> 'w"
  Date_now :: "'w \<Rightarrow> int"
  Date_parse :: "string \<Rightarrow> int option"
  Number_toString :: "rat \<Rightarrow> string"
  Math_random_tail :: "'w \<Rightarrow> string"

datatype dispatch = TokenRequest HttpRequest | RatingDispatch HttpRequest

text \<open>
  The mutable fields of \<^verbatim>\<open>OAuthClient\<close>, the world, and the record of every request
  handed to a transport, in order. A non-null \<^verbatim>\<open>tokenRefreshPromise\<close> is an
  acquisition begun by a concurrent caller; it is held with the result it settles with.
\<close>

record 'w system =
  token :: "OAuthToken option"
  tokenRefreshPromise :: "(js_error + OAuthToken) option"
  world :: 'w
  outbound :: "dispatch list"

definition acquireToken ::
  "'w platform \<Rightarrow> OAuthConfig \<Rightarrow> 'w system \<Rightarrow> (js_error + OAuthToken) \<times> 'w system" where
  "acquireToken pf config s =
     (let request = acquireToken_request config;
          (outcome, w') = oauth_httpClient pf request (world s)
      in (acquireToken_settle outcome (Date_now pf w'),
          s\<lparr> world := w', outbound := outbound s @ [TokenRequest request] \<rparr>))"

definition hasValidToken :: "'w platform \<Rightarrow> 'w system \<Rightarrow> bool" where
  "hasValidToken pf s =
     (case token s of
        None \<Rightarrow> False
      | Some t \<Rightarrow> isTokenValid (Date_now pf (world s)) t)"

definition getAccessToken ::
  "'w platform \<Rightarrow> OAuthConfig \<Rightarrow> 'w system \<Rightarrow> (js_error + string) \<times> 'w system" where
  "getAccessToken pf config s =
     (if hasValidToken pf s then (Inr (accessToken (the (token s))), s)
      else
        (case tokenRefreshPromise s of
           Some settled \<Rightarrow>
             (case settled of
                Inl error \<Rightarrow> (Inl error, s)
              | Inr refreshedToken \<Rightarrow> (Inr (accessToken refreshedToken), s))
         | None \<Rightarrow>
             (let (result, s') = acquireToken pf config s
              in case result of
                   Inl error \<Rightarrow> (Inl error, s'\<lparr> tokenRefreshPromise := None \<rparr>)
                 | Inr newToken \<Rightarrow>
                     (Inr (accessToken newToken),
                      s'\<lparr> token := Some newToken, tokenRefreshPromise := None \<rparr>))))"

definition clearToken :: "'w system \<Rightarrow> 'w system" where
  "clearToken s = s\<lparr> token := None \<rparr>"

section \<open>Interleaved callers of \<^verbatim>\<open>getAccessToken\<close>\<close>

text \<open>
  A caller of \<^verbatim>\<open>getAccessToken\<close> between its call and its return. The function
  suspends at one of two \<^verbatim>\<open>await\<close>s on a refresh promise: the one of the caller that
  began the acquisition (inside \<^verbatim>\<open>try\<close>, followed by \<^verbatim>\<open>finally\<close>), or the one of a
  caller that found an acquisition in progress.
\<close>

datatype caller = Owner nat | Joiner nat | Returned "js_error + string"

text \<open>
  The \<^verbatim>\<open>OAuthClient\<close> object shared by interleaved callers: its two fields, every
  promise \<^verbatim>\<open>acquireToken\<close> has created (\<open>None\<close> while pending), the callers by
  identifier, and the token requests handed to the transport.
\<close>

record client =
  cached :: "OAuthToken option"
  refreshPromise :: "nat option"
  promises :: "(js_error + OAuthToken) option list"
  callers :: "nat \<Rightarrow> caller option"
  requests :: "HttpRequest list"

text \<open>
  What can happen next: a new call at clock reading \<open>now\<close>; the answer of the transport
  to the request of a pending acquisition, on which \<^verbatim>\<open>acquireToken\<close> runs to its end and
  settles its promise; the continuation of a suspended caller whose promise has settled;
  \<^verbatim>\<open>clearToken\<close>.
\<close>

datatype event =
    Call nat int
  | Respond nat "token_response http_outcome" int
  | Resume nat
  | ClearToken

text \<open>The test of the first branch: a cached token that is valid at \<open>now\<close>.\<close>

definition cached_valid :: "client \<Rightarrow> int \<Rightarrow> bool" where
  "cached_valid s now =
     (case cached s of
        None \<Rightarrow> False
      | Some t \<Rightarrow> isTokenValid now t)"

text \<open>What a caller gets from a settled refresh promise.\<close>

definition settled_string :: "js_error + OAuthToken \<Rightarrow> js_error + string" where
  "settled_string r = (case r of Inl error \<Rightarrow> Inl error | Inr t \<Rightarrow> Inr (accessToken t))"

fun step :: "OAuthConfig \<Rightarrow> event \<Rightarrow> client \<Rightarrow> client option" where
  "step config (Call c now) s =
     (if callers s c \<noteq> None then None
      else if cached_valid s now then
        Some (s\<lparr> callers := (callers s)(c \<mapsto> Returned (Inr (accessToken (the (cached s))))) \<rparr>)
      else
        (case refreshPromise s of
           Some p \<Rightarrow> Some (s\<lparr> callers := (callers s)(c \<mapsto> Joiner p) \<rparr>)
         | None \<Rightarrow>
             Some (s\<lparr> refreshPromise := Some (length (promises s)),
                      promises := promises s @ [None],
                      requests := requests s @ [acquireToken_request config],
                      callers := (callers s)(c \<mapsto> Owner (length (promises s))) \<rparr>)))"
| "step config (Respond p outcome now) s =
     (if p < length (promises s) \<and> promises s ! p = None then
        Some (s\<lparr> promises := (promises s)[p := Some (acquireToken_settle outcome now)] \<rparr>)
      else None)"
| "step config (Resume c) s =
     (case callers s c of
        Some (Owner p) \<Rightarrow>
          (if p < length (promises s) then
             (case promises s ! p of
                None \<Rightarrow> None
              | Some (Inl error) \<Rightarrow>
                  Some (s\<lparr> refreshPromise := None,
                           callers := (callers s)(c \<mapsto> Returned (Inl error)) \<rparr>)
              | Some (Inr newToken) \<Rightarrow>
                  Some (s\<lparr> cached := Some newToken,
                           refreshPromise := None,
                           callers := (callers s)(c \<mapsto> Returned (Inr (accessToken newToken))) \<rparr>))
           else None)
      | Some (Joiner p) \<Rightarrow>
          (if p < length (promises s) then
             (case promises s ! p of
                None \<Rightarrow> None
              | Some r \<Rightarrow> Some (s\<lparr> callers := (callers s)(c \<mapsto> Returned (settled_string r)) \<rparr>))
           else None)
      | Some (Returned r) \<Rightarrow> None
      | None \<Rightarrow> None)"
| "step config ClearToken s = Some (s\<lparr> cached := None \<rparr>)"

text \<open>A run: events taken in order, each one enabled in the state it meets.\<close>

fun run :: "OAuthConfig \<Rightarrow> event list \<Rightarrow> client \<Rightarrow> client option" where
  "run config [] s = Some s"
| "run config (e # es) s =
     (case step config e s of
        None \<Rightarrow> None
      | Some s' \<Rightarrow> run config es s')"

text \<open>Calls by the callers \<open>cs\<close>, in order, at the clock readings \<open>nows\<close>.\<close>

definition calls :: "nat list \<Rightarrow> int list \<Rightarrow> event list" where
  "calls cs nows = map (\<lambda>(c, now). Call c now) (zip cs nows)"

section \<open>UPS adapter: \<^verbatim>\<open>getRates\<close>\<close>

definition generateTransactionId :: "'w platform \<Rightarrow> 'w \<Rightarrow> string" where
  "generateTransactionId pf w =
     ''TXN-'' @ int_toString (Date_now pf w) @ ''-'' @ Math_random_tail pf w"

text \<open>Assignment to a property of the headers object: an existing key keeps its place.\<close>

fun set_header :: "string \<Rightarrow> string \<Rightarrow> (string \<times> string) list \<Rightarrow> (string \<times> string) list" where
  "set_header k v [] = [(k, v)]"
| "set_header k v ((k', v') # hs) =
     (if k' = k then (k, v) # hs else (k', v') # set_header k v hs)"

definition ups_request ::
  "'w platform \<Rightarrow> HttpRequest \<Rightarrow> 'w system \<Rightarrow> UPSRateResponse http_outcome \<times> 'w system" where
  "ups_request pf httpRequest s =
     (let (outcome, w') = ups_httpClient pf httpRequest (world s)
      in (outcome, s\<lparr> world := w', outbound := outbound s @ [RatingDispatch httpRequest] \<rparr>))"

text \<open>
  The retried request: the same request object with its \<^verbatim>\<open>Authorization\<close> header
  assigned anew.
\<close>

definition retry_dispatch :: "HttpRequest \<Rightarrow> string \<Rightarrow> HttpRequest" where
  "retry_dispatch httpRequest newToken =
     httpRequest\<lparr> req_headers :=
       set_header ''Authorization'' (''Bearer '' @ newToken) (req_headers httpRequest) \<rparr>"

text \<open>The body of the \<^verbatim>\<open>try\<close> block of \<^verbatim>\<open>getRates\<close>.\<close>

definition getRates_try ::
  "'w platform \<Rightarrow> OAuthConfig \<Rightarrow> HttpRequest \<Rightarrow> 'w system
     \<Rightarrow> (js_error + RateQuote list) \<times> 'w system" where
  "getRates_try pf oauthConfig httpRequest s =
     (let (outcome, s1) = ups_request pf httpRequest s
      in case outcome of
           Inl error \<Rightarrow> (Inl error, s1)
         | Inr response \<Rightarrow>
             if status response = 401 then
               (let s2 = clearToken s1;
                    (newTokenResult, s3) = getAccessToken pf oauthConfig s2
                in case newTokenResult of
                     Inl error \<Rightarrow> (Inl error, s3)
                   | Inr newToken \<Rightarrow>
                       (let retryRequest = retry_dispatch httpRequest newToken;
                            (retryOutcome, s4) = ups_request pf retryRequest s3
                        in case retryOutcome of
                             Inl error \<Rightarrow> (Inl error, s4)
                           | Inr retryResponse \<Rightarrow>
                               (transformResponse (Date_parse pf) (Date_now pf (world s4))
                                  (body retryResponse), s4)))
             else if status response = 429 then
               (Inl (CarrierIntegrationError RATE_LIMITED ''UPS API rate limit exceeded'' None), s1)
             else if status response \<ge> 500 then
               (Inl (CarrierIntegrationError CARRIER_UNAVAILABLE
                       (''UPS API returned server error: '' @ int_toString (status response)) None), s1)
             else if status response \<noteq> 200 then
               (Inl (CarrierIntegrationError INVALID_REQUEST
                       (''UPS API returned error status: '' @ int_toString (status response)) None), s1)
             else
               (transformResponse (Date_parse pf) (Date_now pf (world s1)) (body response), s1))"

text \<open>The \<^verbatim>\<open>catch\<close> handler of \<^verbatim>\<open>getRates\<close>.\<close>

definition getRates_catch :: "js_error \<Rightarrow> js_error" where
  "getRates_catch error =
     (if instanceof_CarrierIntegrationError error then error
      else if message error = ''Request timeout'' then
        CarrierIntegrationError TIMEOUT ''UPS API request timed out'' (Some error)
      else
        CarrierIntegrationError NETWORK_ERROR ''Network error communicating with UPS API''
          (Some error))"

definition rating_request :: "UPSConfig \<Rightarrow> string \<Rightarrow> string \<Rightarrow> UPSRateRequest \<Rightarrow> HttpRequest" where
  "rating_request config bearer transId upsRequest =
     \<lparr> url = baseUrl config @ ''/api/rating/v1/Rate'',
       http_method = ''POST'',
       req_headers = [(''Authorization'', ''Bearer '' @ bearer),
                      (''Content-Type'', ''application/json''),
                      (''transId'', transId),
                      (''transactionSrc'', ''carrier-integration-service'')],
       req_body = JsonBody upsRequest \<rparr>"

definition UPSAdapter_getRates ::
  "'w platform \<Rightarrow> OAuthConfig \<Rightarrow> UPSConfig \<Rightarrow> RateRequest \<Rightarrow> 'w system
     \<Rightarrow> (js_error + RateQuote list) \<times> 'w system" where
  "UPSAdapter_getRates pf oauthConfig config request s =
     (let upsRequest = transformRequest (Number_toString pf) config request;
          (tokenResult, s1) = getAccessToken pf oauthConfig s
      in case tokenResult of
           Inl error \<Rightarrow> (Inl error, s1)
         | Inr bearer \<Rightarrow>
             (let httpRequest =
                    rating_request config bearer (generateTransactionId pf (world s1)) upsRequest;
                  (result, s2) = getRates_try pf oauthConfig httpRequest s1
              in case result of
                   Inl error \<Rightarrow> (Inl (getRates_catch error), s2)
                 | Inr quotes \<Rightarrow> (Inr quotes, s2)))"

text \<open>The request of the first rating dispatch, given the bearer token and the state after the token fetch.\<close>

definition first_dispatch :: "'w platform \<Rightarrow> UPSConfig \<Rightarrow> RateRequest \<Rightarrow> string \<Rightarrow> 'w system \<Rightarrow> HttpRequest" where
  "first_dispatch pf config request bearer s1 =
     rating_request config bearer (generateTransactionId pf (world s1))
       (transformRequest (Number_toString pf) config request)"

text \<open>The state after a rating dispatch of \<open>httpRequest\<close> that leaves the world as \<open>w'\<close>.\<close>

definition dispatched :: "HttpRequest \<Rightarrow> 'w \<Rightarrow> 'w system \<Rightarrow> 'w system" where
  "dispatched httpRequest w' s = s\<lparr> world := w', outbound := outbound s @ [RatingDispatch httpRequest] \<rparr>"

text \<open>The rating dispatches among the requests handed to the transports.\<close>

fun is_RatingDispatch :: "dispatch \<Rightarrow> bool" where
  "is_RatingDispatch (RatingDispatch r) = True"
| "is_RatingDispatch (TokenRequest r) = False"

definition rating_dispatches :: "'w system \<Rightarrow> dispatch list" where
  "rating_dispatches s = filter is_RatingDispatch (outbound s)"

section \<open>Facade: \<^verbatim>\<open>CarrierIntegrationService\<close>\<close>

text \<open>
  A carrier as the facade sees it: its name, and for a request the way the promise
  returned by its \<^verbatim>\<open>getRates\<close> settles.
\<close>

record Carrier =
  getName :: string
  getRates :: "RateRequest \<Rightarrow> js_error + RateQuote list"

text \<open>
  The Zod schemas of domain/validation.ts, as predicates: \<^verbatim>\<open>safeParse\<close> succeeds
  exactly when \<open>RateRequestSchema\<close> holds.
\<close>

definition AddressSchema :: "Address \<Rightarrow> bool" where
  "AddressSchema a =
     (list_all (\<lambda>line. length line \<ge> 1) (street a) \<and> length (street a) \<ge> 1
      \<and> length (city a) \<ge> 1
      \<and> length (stateOrProvince a) \<ge> 1
      \<and> length (postalCode a) \<ge> 1
      \<and> length (country a) = 2)"

definition PackageSchema :: "Package \<Rightarrow> bool" where
  "PackageSchema p =
     (weight p > 0
      \<and> (case dimensions p of
            None \<Rightarrow> True
          | Some d \<Rightarrow> length_in d > 0 \<and> width_in d > 0 \<and> height_in d > 0))"

definition RateRequestSchema :: "RateRequest \<Rightarrow> bool" where
  "RateRequestSchema r =
     (AddressSchema (origin r) \<and> AddressSchema (destination r)
      \<and> list_all PackageSchema (packages r) \<and> length (packages r) \<ge> 1)"

definition CarrierIntegrationService_new :: "Carrier list \<Rightarrow> js_error + Carrier list" where
  "CarrierIntegrationService_new carriers =
     (if length carriers = 0 then Inl (Error ''At least one carrier must be configured'')
      else Inr carriers)"

text \<open>
  The facade's \<^verbatim>\<open>getRates\<close>. \<open>zod_message\<close> is the message Zod gives for an invalid
  request. Each carrier's promise is followed by a \<^verbatim>\<open>then\<close> that keeps the quotes and a
  \<^verbatim>\<open>catch\<close> that turns a rejection into an empty list; \<^verbatim>\<open>Promise.all\<close> keeps the
  carriers' order.
\<close>

definition carrier_result :: "RateRequest \<Rightarrow> Carrier \<Rightarrow> string \<times> RateQuote list" where
  "carrier_result request c =
     (case getRates c request of
        Inr quotes \<Rightarrow> (getName c, quotes)
      | Inl error \<Rightarrow> (getName c, []))"

definition CarrierIntegrationService_getRates ::
  "(RateRequest \<Rightarrow> string) \<Rightarrow> Carrier list \<Rightarrow> RateRequest \<Rightarrow> js_error + RateQuote list" where
  "CarrierIntegrationService_getRates zod_message carriers request =
     (if \<not> RateRequestSchema request then
        Inl (CarrierIntegrationError INVALID_REQUEST
               (''Invalid rate request: '' @ zod_message request)
               (Some (Error (zod_message request))))
      else
        (let results = map (carrier_result request) carriers
         in Inr (concat (map snd results))))"

section \<open>A scripted platform and fixtures for concrete runs\<close>

text \<open>
  A world whose transports answer from scripts, one outcome per request, and whose clock
  advances by one millisecond per request.
\<close>

record script_world =
  clock :: int
  token_script :: "token_response http_outcome list"
  rating_script :: "UPSRateResponse http_outcome list"

definition scripted_oauth_httpClient ::
  "HttpRequest \<Rightarrow> script_world \<Rightarrow> token_response http_outcome \<times> script_world" where
  "scripted_oauth_httpClient req w =
     (case token_script w of
        [] \<Rightarrow> (Inl (Error ''fetch failed''), w\<lparr> clock := clock w + 1 \<rparr>)
      | out # rest \<Rightarrow> (out, w\<lparr> clock := clock w + 1, token_script := rest \<rparr>))"

definition scripted_ups_httpClient ::
  "HttpRequest \<Rightarrow> script_world \<Rightarrow> UPSRateResponse http_outcome \<times> script_world" where
  "scripted_ups_httpClient req w =
     (case rating_script w of
        [] \<Rightarrow> (Inl (Error ''fetch failed''), w\<lparr> clock := clock w + 1 \<rparr>)
      | out # rest \<Rightarrow> (out, w\<lparr> clock := clock w + 1, rating_script := rest \<rparr>))"

fun fixture_Date_parse :: "string \<Rightarrow> int option" where
  "fixture_Date_parse d = (if d = ''2026-02-12'' then Some 1770854400000 else None)"

fun fixture_toString :: "rat \<Rightarrow> string" where
  "fixture_toString r = ''5''"

fun fixture_random_tail :: "script_world \<Rightarrow> string" where
  "fixture_random_tail w = ''k3x9q''"

definition scripted_platform :: "script_world platform" where
  "scripted_platform =
     \<lparr> oauth_httpClient = scripted_oauth_httpClient,
       ups_httpClient = scripted_ups_httpClient,
       Date_now = clock,
       Date_parse = fixture_Date_parse,
       Number_toString = fixture_toString,
       Math_random_tail = fixture_random_tail \<rparr>"

definition fixture_oauth_config :: OAuthConfig where
  "fixture_oauth_config =
     \<lparr> tokenUrl = ''https://wwwcie.ups.com/security/v1/oauth/token'',
       clientId = ''test-client-id'',
       clientSecret = ''test-client-secret'',
       scope = Some ''rating'' \<rparr>"

definition system_at ::
  "int \<Rightarrow> OAuthToken option \<Rightarrow> token_response http_outcome list
     \<Rightarrow> UPSRateResponse http_outcome list \<Rightarrow> script_world system" where
  "system_at now tok ts rs =
     \<lparr> token = tok, tokenRefreshPromise = None,
       world = \<lparr> clock = now, token_script = ts, rating_script = rs \<rparr>,
       outbound = [] \<rparr>"

definition cached_token :: OAuthToken where
  "cached_token = \<lparr> accessToken = ''cached-token'', expiresAt = 3600000, tokenType = ''Bearer'' \<rparr>"

definition fresh_token :: OAuthToken where
  "fresh_token = \<lparr> accessToken = ''fresh-token'', expiresAt = 7200000, tokenType = ''Bearer'' \<rparr>"

definition token_status :: "int \<Rightarrow> token_response option HttpResponse" where
  "token_status st =
     \<lparr> status = st, headers = [],
       body = Some \<lparr> access_token = None, token_type = None, expires_in = None \<rparr> \<rparr>"

definition token_body_ok :: "string \<Rightarrow> int \<Rightarrow> token_response option HttpResponse" where
  "token_body_ok a e =
     \<lparr> status = 200, headers = [],
       body = Some \<lparr> access_token = Some a, token_type = Some ''Bearer'', expires_in = Some e \<rparr> \<rparr>"

definition fixture_ground_shipment :: UPSRatedShipment where
  "fixture_ground_shipment =
     \<lparr> Service = Some \<lparr> sv_Code = Some ''03'', sv_Description = Some ''Ground'' \<rparr>,
       TransportationCharges = Some \<lparr> CurrencyCode = Some ''USD'', MonetaryValue = Some ''25.50'' \<rparr>,
       TotalCharges = Some \<lparr> CurrencyCode = Some ''USD'', MonetaryValue = Some ''25.50'' \<rparr>,
       GuaranteedDelivery = Some \<lparr> gd_Date = Some ''2026-02-12'', gd_Time = None \<rparr> \<rparr>"


definition success_envelope :: "UPSRatedShipment list option \<Rightarrow> UPSRateResponse" where
  "success_envelope shipments =
     \<lparr> RateResponse = Some
         \<lparr> Response = Some \<lparr> ResponseStatus = Some \<lparr> rs_Code = Some ''1'', rs_Description = Some ''Success'' \<rparr>,
                             Alert = None \<rparr>,
           RatedShipment = shipments \<rparr> \<rparr>"

definition fixture_ups_config :: UPSConfig where
  "fixture_ups_config = \<lparr> baseUrl = ''https://wwwcie.ups.com'', shipperNumber = None \<rparr>"

definition fixture_address :: Address where
  "fixture_address =
     \<lparr> street = [''123 Main Street''], city = ''New York'', stateOrProvince = ''NY'',
       postalCode = ''10001'', country = ''US'' \<rparr>"

definition fixture_request :: RateRequest where
  "fixture_request =
     \<lparr> origin = fixture_address, destination = fixture_address,
       packages = [\<lparr> weight = 5, dimensions = None \<rparr>], serviceLevel = None \<rparr>"

definition ups_status :: "int \<Rightarrow> UPSRateResponse http_outcome" where
  "ups_status st = Inr \<lparr> status = st, headers = [], body = Some \<lparr> RateResponse = None \<rparr> \<rparr>"

definition ups_ok :: "UPSRateResponse \<Rightarrow> UPSRateResponse http_outcome" where
  "ups_ok b = Inr \<lparr> status = 200, headers = [], body = Some b \<rparr>"

text \<open>The state of the scripted system after a successful token fetch at clock \<open>now\<close>.\<close>

definition fetched ::
  "int \<Rightarrow> string \<Rightarrow> int \<Rightarrow> token_response http_outcome list \<Rightarrow> UPSRateResponse http_outcome list
     \<Rightarrow> script_world system" where
  "fetched now a e ts rs =
     \<lparr> token = Some \<lparr> accessToken = a, expiresAt = now + 1 + e * 1000, tokenType = ''Bearer'' \<rparr>,
       tokenRefreshPromise = None,
       world = \<lparr> clock = now + 1, token_script = ts, rating_script = rs \<rparr>,
       outbound = [TokenRequest (acquireToken_request fixture_oauth_config)] \<rparr>"

definition fixture_quote :: RateQuote where
  "fixture_quote =
     \<lparr> carrier = ''UPS'', quote_serviceLevel = ''03'', serviceName = ''Ground'',
       totalCost = Finite (51 / 2), currency = ''USD'', estimatedDays = None,
       carrierQuoteId = Some ''03-0'' \<rparr>"

fun failing_getRates :: "RateRequest \<Rightarrow> js_error + RateQuote list" where
  "failing_getRates r = Inl (CarrierIntegrationError CARRIER_UNAVAILABLE ''carrier is down'' None)"

fun quoting_getRates :: "RateRequest \<Rightarrow> js_error + RateQuote list" where
  "quoting_getRates r = Inr [fixture_quote]"

definition failing_carrier :: Carrier where
  "failing_carrier = \<lparr> getName = ''FEDEX'', getRates = failing_getRates \<rparr>"

definition quoting_carrier :: Carrier where
  "quoting_carrier = \<lparr> getName = ''UPS'', getRates = quoting_getRates \<rparr>"

fun fixture_zod_message :: "RateRequest \<Rightarrow> string" where
  "fixture_zod_message r = ''invalid''"

definition idle_client :: client where
  "idle_client =
     \<lparr> cached = None, refreshPromise = None, promises = [], callers = Map.empty, requests = [] \<rparr>"

definition failure_envelope :: UPSRateResponse where
  "failure_envelope =
     \<lparr> RateResponse = Some
         \<lparr> Response = Some
             \<lparr> ResponseStatus = Some \<lparr> rs_Code = Some ''0'', rs_Description = Some ''Failure'' \<rparr>,
               Alert = Some [\<lparr> al_Code = Some ''110537'',
                               al_Description = Some ''Invalid Shipper Number'' \<rparr>] \<rparr>,
           RatedShipment = None \<rparr> \<rparr>"



section \<open>Properties\<close>

subsection \<open>Token cache and the validity buffer\<close>

lemma acquireToken_outbound:
  "outbound (snd (acquireToken pf config s)) = outbound s @ [TokenRequest (acquireToken_request config)]"
  by (simp add: acquireToken_def Let_def split: prod.splits)

lemma getAccessToken_valid:
  "hasValidToken pf s \<Longrightarrow> getAccessToken pf config s = (Inr (accessToken (the (token s))), s)"
  by (simp add: getAccessToken_def)

lemma getAccessToken_acquires:
  "\<not> hasValidToken pf s \<Longrightarrow> tokenRefreshPromise s = None \<Longrightarrow>
   outbound (snd (getAccessToken pf config s)) = outbound s @ [TokenRequest (acquireToken_request config)]"
  using acquireToken_outbound [of pf config s]
  by (auto simp: getAccessToken_def Let_def split: prod.splits sum.splits)

lemma getAccessToken_joins:
  "\<not> hasValidToken pf s \<Longrightarrow> tokenRefreshPromise s = Some settled \<Longrightarrow>
   getAccessToken pf config s = (settled_string settled, s)"
  by (simp add: getAccessToken_def settled_string_def split: sum.splits)

lemma getAccessToken_miss:
  "\<not> hasValidToken pf s \<Longrightarrow> tokenRefreshPromise s = None \<Longrightarrow>
   oauth_httpClient pf (acquireToken_request config) (world s) = (outcome, w') \<Longrightarrow>
   getAccessToken pf config s =
     (case acquireToken_settle outcome (Date_now pf w') of
        Inl error \<Rightarrow>
          (Inl error, s\<lparr> world := w',
                         outbound := outbound s @ [TokenRequest (acquireToken_request config)] \<rparr>)
      | Inr newToken \<Rightarrow>
          (Inr (accessToken newToken),
           s\<lparr> token := Some newToken, world := w',
              outbound := outbound s @ [TokenRequest (acquireToken_request config)] \<rparr>))"
  by (simp add: getAccessToken_def acquireToken_def Let_def split: sum.splits)

text \<open>
  Claim C3. In a client holding a cached token with expiry instant \<open>T\<close>,
  \<^verbatim>\<open>getAccessToken\<close> returns the cached string and leaves everything unchanged (no
  outbound request) when the clock is strictly before \<open>T\<close> minus 60 seconds. At \<open>T\<close> minus
  60 seconds and later the cached token is not used. With no acquisition in flight a new
  one begins: one token request goes out, the call returns what that acquisition gives
  (the new token's string, which replaces the cached token, or its error), so that the
  cached string is returned with nothing changed exactly when the clock is before the
  boundary. With an acquisition in flight the call takes its result.
\<close>

theorem getAccessToken_buffer_boundary:
  assumes "token s = Some t"
  shows "(Date_now pf (world s) < expiresAt t - 60 * 1000 \<longrightarrow>
            getAccessToken pf config s = (Inr (accessToken t), s))
       \<and> (tokenRefreshPromise s = None \<longrightarrow>
            (getAccessToken pf config s = (Inr (accessToken t), s))
              = (Date_now pf (world s) < expiresAt t - 60 * 1000))
       \<and> (tokenRefreshPromise s = None \<and> \<not> Date_now pf (world s) < expiresAt t - 60 * 1000 \<longrightarrow>
            outbound (snd (getAccessToken pf config s))
              = outbound s @ [TokenRequest (acquireToken_request config)])
       \<and> (tokenRefreshPromise s = None \<and> \<not> Date_now pf (world s) < expiresAt t - 60 * 1000
            \<and> oauth_httpClient pf (acquireToken_request config) (world s) = (outcome, w') \<longrightarrow>
            getAccessToken pf config s =
              (case acquireToken_settle outcome (Date_now pf w') of
                 Inl error \<Rightarrow>
                   (Inl error,
                    s\<lparr> world := w',
                       outbound := outbound s @ [TokenRequest (acquireToken_request config)] \<rparr>)
               | Inr newToken \<Rightarrow>
                   (Inr (accessToken newToken),
                    s\<lparr> token := Some newToken, world := w',
                       outbound := outbound s @ [TokenRequest (acquireToken_request config)] \<rparr>)))
       \<and> (tokenRefreshPromise s = Some settled \<and> \<not> Date_now pf (world s) < expiresAt t - 60 * 1000 \<longrightarrow>
            getAccessToken pf config s = (settled_string settled, s))"
proof -
  have valid: "hasValidToken pf s = (Date_now pf (world s) < expiresAt t - 60 * 1000)"
    using assms by (simp add: hasValidToken_def isTokenValid_def bufferMs_def)
  have hit: "Date_now pf (world s) < expiresAt t - 60 * 1000 \<Longrightarrow>
             getAccessToken pf config s = (Inr (accessToken t), s)"
    using valid assms getAccessToken_valid [of pf s config] by simp
  have grows: "tokenRefreshPromise s = None \<Longrightarrow> \<not> Date_now pf (world s) < expiresAt t - 60 * 1000 \<Longrightarrow>
               outbound (snd (getAccessToken pf config s))
                 = outbound s @ [TokenRequest (acquireToken_request config)]"
    using valid getAccessToken_acquires [of pf s config] by simp
  have changed: "tokenRefreshPromise s = None \<Longrightarrow> \<not> Date_now pf (world s) < expiresAt t - 60 * 1000 \<Longrightarrow>
               getAccessToken pf config s \<noteq> (Inr (accessToken t), s)"
  proof -
    assume "tokenRefreshPromise s = None" and "\<not> Date_now pf (world s) < expiresAt t - 60 * 1000"
    then have "outbound (snd (getAccessToken pf config s)) \<noteq> outbound s"
      using grows by simp
    then show ?thesis by auto
  qed
  have acquired: "tokenRefreshPromise s = None \<Longrightarrow> \<not> Date_now pf (world s) < expiresAt t - 60 * 1000 \<Longrightarrow>
               oauth_httpClient pf (acquireToken_request config) (world s) = (outcome, w') \<Longrightarrow>
               getAccessToken pf config s =
                 (case acquireToken_settle outcome (Date_now pf w') of
                    Inl error \<Rightarrow>
                      (Inl error,
                       s\<lparr> world := w',
                          outbound := outbound s @ [TokenRequest (acquireToken_request config)] \<rparr>)
                  | Inr newToken \<Rightarrow>
                      (Inr (accessToken newToken),
                       s\<lparr> token := Some newToken, world := w',
                          outbound := outbound s @ [TokenRequest (acquireToken_request config)] \<rparr>))"
    using valid getAccessToken_miss [of pf s config outcome w'] by simp
  have joins: "tokenRefreshPromise s = Some settled \<Longrightarrow> \<not> Date_now pf (world s) < expiresAt t - 60 * 1000 \<Longrightarrow>
               getAccessToken pf config s = (settled_string settled, s)"
    using valid getAccessToken_joins [of pf s settled config] by simp
  show ?thesis
    using hit grows changed acquired joins by blast
qed

theorem getAccessToken_buffer_boundary_witness:
  "getAccessToken scripted_platform fixture_oauth_config
      (system_at 3539999 (Some cached_token) [Inr (token_body_ok ''fresh-token'' 3600)] [])
     = (Inr ''cached-token'',
        system_at 3539999 (Some cached_token) [Inr (token_body_ok ''fresh-token'' 3600)] [])
   \<and> getAccessToken scripted_platform fixture_oauth_config
        (system_at 3540000 (Some cached_token) [Inr (token_body_ok ''fresh-token'' 3600)] [])
     = (Inr ''fresh-token'',
        \<lparr> token = Some \<lparr> accessToken = ''fresh-token'', expiresAt = 7140001, tokenType = ''Bearer'' \<rparr>,
          tokenRefreshPromise = None,
          world = \<lparr> clock = 3540001, token_script = [], rating_script = [] \<rparr>,
          outbound = [TokenRequest (acquireToken_request fixture_oauth_config)] \<rparr>)
   \<and> fst (getAccessToken scripted_platform fixture_oauth_config
             (system_at 4200000 (Some cached_token) [Inr (token_status 503)] []))
     = Inl (CarrierIntegrationError AUTH_FAILED ''OAuth token request failed with status 503''
              (Some (Error ''HTTP 503'')))
   \<and> getAccessToken scripted_platform fixture_oauth_config
        ((system_at 3540000 (Some cached_token) [] [])\<lparr> tokenRefreshPromise := Some (Inr fresh_token) \<rparr>)
       = (Inr ''fresh-token'',
          (system_at 3540000 (Some cached_token) [] [])\<lparr> tokenRefreshPromise := Some (Inr fresh_token) \<rparr>)"
proof -
  have settle_ok: "acquireToken_settle (Inr (token_body_ok ''fresh-token'' 3600)) 3540001
                     = Inr \<lparr> accessToken = ''fresh-token'', expiresAt = 7140001, tokenType = ''Bearer'' \<rparr>"
    by (simp add: acquireToken_settle_def acquireToken_try_def token_body_ok_def or_string_def)
  have settle_503: "acquireToken_settle (Inr (token_status 503)) 4200001
                     = Inl (CarrierIntegrationError AUTH_FAILED ''OAuth token request failed with status 503''
                              (Some (Error ''HTTP 503'')))"
    by (simp add: acquireToken_settle_def acquireToken_try_def acquireToken_catch_def token_status_def
          int_toString_def nat_digits.simps)
  show ?thesis
    using getAccessToken_buffer_boundary
            [of "system_at 3539999 (Some cached_token) [Inr (token_body_ok ''fresh-token'' 3600)] []"
                cached_token scripted_platform fixture_oauth_config]
          getAccessToken_buffer_boundary
            [of "system_at 3540000 (Some cached_token) [Inr (token_body_ok ''fresh-token'' 3600)] []"
                cached_token scripted_platform fixture_oauth_config
                "Inr (token_body_ok ''fresh-token'' 3600)"
                "\<lparr> clock = 3540001, token_script = [], rating_script = [] \<rparr>"]
          getAccessToken_buffer_boundary
            [of "system_at 4200000 (Some cached_token) [Inr (token_status 503)] []"
                cached_token scripted_platform fixture_oauth_config
                "Inr (token_status 503)"
                "\<lparr> clock = 4200001, token_script = [], rating_script = [] \<rparr>"]
          getAccessToken_buffer_boundary
            [of "(system_at 3540000 (Some cached_token) [] [])\<lparr> tokenRefreshPromise := Some (Inr fresh_token) \<rparr>"
                cached_token scripted_platform fixture_oauth_config _ _ "Inr fresh_token"]
    by (simp add: system_at_def cached_token_def scripted_platform_def settled_string_def
          fresh_token_def scripted_oauth_httpClient_def settle_ok settle_503)
qed

subsection \<open>Token acquisition\<close>

lemma acquireToken_settle_non200:
  "status response \<noteq> 200 \<Longrightarrow>
   acquireToken_settle (Inr response) now =
     Inl (CarrierIntegrationError AUTH_FAILED
            (''OAuth token request failed with status '' @ int_toString (status response))
            (Some (Error (''HTTP '' @ int_toString (status response)))))"
  by (simp add: acquireToken_settle_def acquireToken_try_def acquireToken_catch_def)

lemma acquireToken_settle_null:
  "status response = 200 \<Longrightarrow> body response = None \<Longrightarrow>
   acquireToken_settle (Inr response) now =
     Inl (CarrierIntegrationError AUTH_FAILED ''Failed to acquire OAuth token''
            (Some (destructure_of_null ''access_token'' ''response.body'')))"
  by (simp add: acquireToken_settle_def acquireToken_try_def acquireToken_catch_def
        destructure_of_null_def)

lemma acquireToken_settle_missing:
  "status response = 200 \<Longrightarrow> body response = Some b \<Longrightarrow>
   \<not> truthy_string (access_token b) \<or> \<not> truthy_number (expires_in b) \<Longrightarrow>
   acquireToken_settle (Inr response) now =
     Inl (CarrierIntegrationError MALFORMED_RESPONSE ''OAuth response missing required fields''
            (Some (Error ''Invalid OAuth response structure'')))"
  by (auto simp: acquireToken_settle_def acquireToken_try_def acquireToken_catch_def)

lemma acquireToken_settle_raised:
  "\<not> instanceof_CarrierIntegrationError err \<Longrightarrow>
   acquireToken_settle (Inl err) now =
     Inl (CarrierIntegrationError AUTH_FAILED ''Failed to acquire OAuth token'' (Some err))"
  by (simp add: acquireToken_settle_def acquireToken_try_def acquireToken_catch_def)

lemma acquireToken_settle_classified:
  "acquireToken_settle (Inl (CarrierIntegrationError c m cause)) now =
     Inl (CarrierIntegrationError c m cause)"
  by (simp add: acquireToken_settle_def acquireToken_try_def acquireToken_catch_def)

lemma acquireToken_settle_success:
  "status response = 200 \<Longrightarrow> body response = Some b \<Longrightarrow>
   access_token b = Some a \<Longrightarrow> a \<noteq> [] \<Longrightarrow> expires_in b = Some e \<Longrightarrow> e \<noteq> 0 \<Longrightarrow>
   acquireToken_settle (Inr response) now =
     Inr \<lparr> accessToken = a, expiresAt = now + e * 1000,
           tokenType = or_default (token_type b) ''Bearer'' \<rparr>"
  by (simp add: acquireToken_settle_def acquireToken_try_def or_string_def or_default_def)

text \<open>
  Claim C5, as stated, fails for a 200 answer whose body is the JSON value \<^verbatim>\<open>null\<close>:
  the access token and the expiry duration are missing, yet destructuring the body throws
  before the check of the fields is reached, and the \<^verbatim>\<open>catch\<close> wraps the
  \<^verbatim>\<open>TypeError\<close> as AUTH_FAILED, not MALFORMED_RESPONSE.
\<close>

theorem acquireToken_null_body_counterexample:
  "fst (getAccessToken scripted_platform fixture_oauth_config
          (system_at 0 None [Inr \<lparr> status = 200, headers = [], body = None \<rparr>] [])) =
     Inl (CarrierIntegrationError AUTH_FAILED ''Failed to acquire OAuth token''
            (Some (destructure_of_null ''access_token'' ''response.body'')))"
  by (simp add: getAccessToken_def acquireToken_def hasValidToken_def system_at_def
        scripted_platform_def scripted_oauth_httpClient_def
        acquireToken_settle_def acquireToken_try_def acquireToken_catch_def
        destructure_of_null_def Let_def)

text \<open>
  Claim C5, amended. Token acquisition: a response whose status is not 200 fails with
  AUTH_FAILED and the status in the message; a 200 response whose body is not \<^verbatim>\<open>null\<close>
  and has no truthy access token or expiry duration fails with MALFORMED_RESPONSE; an error
  raised by the transport is wrapped as AUTH_FAILED with the error as cause, unless it is a
  \<^verbatim>\<open>CarrierIntegrationError\<close>, which passes through unchanged; on success the cached
  token becomes the new token, with expiry the clock reading after the response plus
  \<^verbatim>\<open>expires_in\<close> seconds.
\<close>

theorem acquireToken_outcomes:
  "(status response \<noteq> 200 \<longrightarrow>
      acquireToken_settle (Inr response) now =
        Inl (CarrierIntegrationError AUTH_FAILED
               (''OAuth token request failed with status '' @ int_toString (status response))
               (Some (Error (''HTTP '' @ int_toString (status response))))))
   \<and> (status response = 200 \<and> body response = Some b
        \<and> (\<not> truthy_string (access_token b) \<or> \<not> truthy_number (expires_in b)) \<longrightarrow>
      acquireToken_settle (Inr response) now =
        Inl (CarrierIntegrationError MALFORMED_RESPONSE ''OAuth response missing required fields''
               (Some (Error ''Invalid OAuth response structure''))))
   \<and> (\<not> instanceof_CarrierIntegrationError err \<longrightarrow>
      acquireToken_settle (Inl err) now =
        Inl (CarrierIntegrationError AUTH_FAILED ''Failed to acquire OAuth token'' (Some err)))
   \<and> acquireToken_settle (Inl (CarrierIntegrationError c m' cause)) now =
        Inl (CarrierIntegrationError c m' cause)
   \<and> (\<not> hasValidToken pf s \<and> tokenRefreshPromise s = None
        \<and> oauth_httpClient pf (acquireToken_request config) (world s) = (Inr response, w')
        \<and> status response = 200 \<and> body response = Some b
        \<and> access_token b = Some a \<and> a \<noteq> []
        \<and> expires_in b = Some e \<and> e \<noteq> 0 \<longrightarrow>
      getAccessToken pf config s =
        (Inr a,
         s\<lparr> token := Some \<lparr> accessToken = a, expiresAt = Date_now pf w' + e * 1000,
                              tokenType = or_default (token_type b) ''Bearer'' \<rparr>,
            world := w',
            outbound := outbound s @ [TokenRequest (acquireToken_request config)] \<rparr>))"
proof (intro conjI impI)
  show "acquireToken_settle (Inl (CarrierIntegrationError c m' cause)) now =
        Inl (CarrierIntegrationError c m' cause)"
    by (rule acquireToken_settle_classified)
next
  assume "\<not> instanceof_CarrierIntegrationError err"
  then show "acquireToken_settle (Inl err) now =
        Inl (CarrierIntegrationError AUTH_FAILED ''Failed to acquire OAuth token'' (Some err))"
    by (rule acquireToken_settle_raised)
next
  assume "status response \<noteq> 200"
  then show "acquireToken_settle (Inr response) now =
        Inl (CarrierIntegrationError AUTH_FAILED
               (''OAuth token request failed with status '' @ int_toString (status response))
               (Some (Error (''HTTP '' @ int_toString (status response)))))"
    by (rule acquireToken_settle_non200)
next
  assume "status response = 200 \<and> body response = Some b
        \<and> (\<not> truthy_string (access_token b) \<or> \<not> truthy_number (expires_in b))"
  then show "acquireToken_settle (Inr response) now =
        Inl (CarrierIntegrationError MALFORMED_RESPONSE ''OAuth response missing required fields''
               (Some (Error ''Invalid OAuth response structure'')))"
    using acquireToken_settle_missing [of response b now] by blast
next
  assume h: "\<not> hasValidToken pf s \<and> tokenRefreshPromise s = None
        \<and> oauth_httpClient pf (acquireToken_request config) (world s) = (Inr response, w')
        \<and> status response = 200 \<and> body response = Some b
        \<and> access_token b = Some a \<and> a \<noteq> []
        \<and> expires_in b = Some e \<and> e \<noteq> 0"
  then have settle: "acquireToken_settle (Inr response) (Date_now pf w') =
     Inr \<lparr> accessToken = a, expiresAt = Date_now pf w' + e * 1000,
           tokenType = or_default (token_type b) ''Bearer'' \<rparr>"
    using acquireToken_settle_success [of response b a e "Date_now pf w'"] by blast
  have miss: "getAccessToken pf config s =
     (case acquireToken_settle (Inr response) (Date_now pf w') of
        Inl error \<Rightarrow>
          (Inl error, s\<lparr> world := w',
                         outbound := outbound s @ [TokenRequest (acquireToken_request config)] \<rparr>)
      | Inr newToken \<Rightarrow>
          (Inr (accessToken newToken),
           s\<lparr> token := Some newToken, world := w',
              outbound := outbound s @ [TokenRequest (acquireToken_request config)] \<rparr>))"
    using h getAccessToken_miss [of pf s config "Inr response" w'] by blast
  show "getAccessToken pf config s =
        (Inr a,
         s\<lparr> token := Some \<lparr> accessToken = a, expiresAt = Date_now pf w' + e * 1000,
                              tokenType = or_default (token_type b) ''Bearer'' \<rparr>,
            world := w',
            outbound := outbound s @ [TokenRequest (acquireToken_request config)] \<rparr>)"
    by (simp add: miss settle)
qed

theorem acquireToken_outcomes_witness:
  "acquireToken_settle (Inr (token_status 500)) 0 =
     Inl (CarrierIntegrationError AUTH_FAILED ''OAuth token request failed with status 500''
            (Some (Error ''HTTP 500'')))
   \<and> acquireToken_settle (Inr (token_status 200)) 0 =
     Inl (CarrierIntegrationError MALFORMED_RESPONSE ''OAuth response missing required fields''
            (Some (Error ''Invalid OAuth response structure'')))
   \<and> acquireToken_settle (Inl (TypeError ''fetch failed'')) 0 =
     Inl (CarrierIntegrationError AUTH_FAILED ''Failed to acquire OAuth token''
            (Some (TypeError ''fetch failed'')))
   \<and> acquireToken_settle (Inl (Error ''Request timeout'')) 0 =
     Inl (CarrierIntegrationError AUTH_FAILED ''Failed to acquire OAuth token''
            (Some (Error ''Request timeout'')))
   \<and> getAccessToken scripted_platform fixture_oauth_config
        (system_at 3540000 (Some cached_token) [Inr (token_body_ok ''fresh-token'' 3600)] [])
       = (Inr ''fresh-token'',
          \<lparr> token = Some \<lparr> accessToken = ''fresh-token'', expiresAt = 3540001 + 3600 * 1000,
                            tokenType = ''Bearer'' \<rparr>,
            tokenRefreshPromise = None,
            world = \<lparr> clock = 3540001, token_script = [], rating_script = [] \<rparr>,
            outbound = [TokenRequest (acquireToken_request fixture_oauth_config)] \<rparr>)"
proof (intro conjI)
  show "acquireToken_settle (Inr (token_status 500)) 0 =
     Inl (CarrierIntegrationError AUTH_FAILED ''OAuth token request failed with status 500''
            (Some (Error ''HTTP 500'')))"
    using acquireToken_outcomes [of "token_status 500" 0]
    by (simp add: token_status_def int_toString_def nat_digits.simps)
  show "acquireToken_settle (Inr (token_status 200)) 0 =
     Inl (CarrierIntegrationError MALFORMED_RESPONSE ''OAuth response missing required fields''
            (Some (Error ''Invalid OAuth response structure'')))"
    using acquireToken_outcomes [of "token_status 200" 0
            "\<lparr> access_token = None, token_type = None, expires_in = None \<rparr>"]
    by (simp add: token_status_def)
  show "acquireToken_settle (Inl (TypeError ''fetch failed'')) 0 =
     Inl (CarrierIntegrationError AUTH_FAILED ''Failed to acquire OAuth token''
            (Some (TypeError ''fetch failed'')))"
    using acquireToken_outcomes [where err = "TypeError ''fetch failed''" and now = 0,
            THEN conjunct2, THEN conjunct2, THEN conjunct1]
    by simp
  show "acquireToken_settle (Inl (Error ''Request timeout'')) 0 =
     Inl (CarrierIntegrationError AUTH_FAILED ''Failed to acquire OAuth token''
            (Some (Error ''Request timeout'')))"
    using acquireToken_outcomes [where err = "Error ''Request timeout''" and now = 0,
            THEN conjunct2, THEN conjunct2, THEN conjunct1]
    by simp
  show "getAccessToken scripted_platform fixture_oauth_config
        (system_at 3540000 (Some cached_token) [Inr (token_body_ok ''fresh-token'' 3600)] [])
       = (Inr ''fresh-token'',
          \<lparr> token = Some \<lparr> accessToken = ''fresh-token'', expiresAt = 3540001 + 3600 * 1000,
                            tokenType = ''Bearer'' \<rparr>,
            tokenRefreshPromise = None,
            world = \<lparr> clock = 3540001, token_script = [], rating_script = [] \<rparr>,
            outbound = [TokenRequest (acquireToken_request fixture_oauth_config)] \<rparr>)"
    using acquireToken_outcomes [of "token_body_ok ''fresh-token'' 3600" 0
            "\<lparr> access_token = Some ''fresh-token'', token_type = Some ''Bearer'',
               expires_in = Some 3600 \<rparr>" _ _ _ _
            scripted_platform "system_at 3540000 (Some cached_token) [Inr (token_body_ok ''fresh-token'' 3600)] []"
            fixture_oauth_config
            "\<lparr> clock = 3540001, token_script = [], rating_script = [] \<rparr>" "''fresh-token''" 3600]
    by (simp add: token_body_ok_def system_at_def cached_token_def scripted_platform_def
          scripted_oauth_httpClient_def hasValidToken_def isTokenValid_def bufferMs_def or_default_def)
qed

text \<open>
  Claim C10. When an acquisition runs and the token endpoint answers 200 with both required
  fields present, but \<^verbatim>\<open>expires_in\<close> is 0 or \<^verbatim>\<open>access_token\<close> is the empty string,
  \<^verbatim>\<open>getAccessToken\<close> fails with MALFORMED_RESPONSE: presence is decided by truthiness.
\<close>

theorem getAccessToken_falsy_required_fields:
  assumes "\<not> hasValidToken pf s" and "tokenRefreshPromise s = None"
    and "oauth_httpClient pf (acquireToken_request config) (world s) = (Inr response, w')"
    and "status response = 200" and "body response = Some b"
    and "access_token b = Some a" and "expires_in b = Some e"
    and "a = [] \<or> e = 0"
  shows "fst (getAccessToken pf config s) =
           Inl (CarrierIntegrationError MALFORMED_RESPONSE ''OAuth response missing required fields''
                  (Some (Error ''Invalid OAuth response structure'')))"
proof -
  have "\<not> truthy_string (access_token b) \<or> \<not> truthy_number (expires_in b)"
    using assms(6-8) by auto
  then have "acquireToken_settle (Inr response) (Date_now pf w') =
      Inl (CarrierIntegrationError MALFORMED_RESPONSE ''OAuth response missing required fields''
            (Some (Error ''Invalid OAuth response structure'')))"
    using assms(4,5) acquireToken_settle_missing [of response b "Date_now pf w'"] by blast
  then show ?thesis
    using getAccessToken_miss [OF assms(1-3)] by simp
qed

theorem getAccessToken_falsy_required_fields_witness:
  "fst (getAccessToken scripted_platform fixture_oauth_config
          (system_at 0 None [Inr (token_body_ok ''tok'' 0)] [])) =
     Inl (CarrierIntegrationError MALFORMED_RESPONSE ''OAuth response missing required fields''
            (Some (Error ''Invalid OAuth response structure'')))
   \<and> fst (getAccessToken scripted_platform fixture_oauth_config
          (system_at 0 None [Inr (token_body_ok '''' 3600)] [])) =
     Inl (CarrierIntegrationError MALFORMED_RESPONSE ''OAuth response missing required fields''
            (Some (Error ''Invalid OAuth response structure'')))"
proof (intro conjI)
  show "fst (getAccessToken scripted_platform fixture_oauth_config
          (system_at 0 None [Inr (token_body_ok ''tok'' 0)] [])) =
     Inl (CarrierIntegrationError MALFORMED_RESPONSE ''OAuth response missing required fields''
            (Some (Error ''Invalid OAuth response structure'')))"
    by (rule getAccessToken_falsy_required_fields
          [where response = "token_body_ok ''tok'' 0" and a = "''tok''" and e = 0
             and b = "\<lparr> access_token = Some ''tok'', token_type = Some ''Bearer'',
                        expires_in = Some 0 \<rparr>"
             and w' = "\<lparr> clock = 1, token_script = [], rating_script = [] \<rparr>"])
       (simp_all add: token_body_ok_def system_at_def scripted_platform_def
          scripted_oauth_httpClient_def hasValidToken_def)
  show "fst (getAccessToken scripted_platform fixture_oauth_config
          (system_at 0 None [Inr (token_body_ok '''' 3600)] [])) =
     Inl (CarrierIntegrationError MALFORMED_RESPONSE ''OAuth response missing required fields''
            (Some (Error ''Invalid OAuth response structure'')))"
    by (rule getAccessToken_falsy_required_fields
          [where response = "token_body_ok '''' 3600" and a = "''''" and e = 3600
             and b = "\<lparr> access_token = Some '''', token_type = Some ''Bearer'',
                        expires_in = Some 3600 \<rparr>"
             and w' = "\<lparr> clock = 1, token_script = [], rating_script = [] \<rparr>"])
       (simp_all add: token_body_ok_def system_at_def scripted_platform_def
          scripted_oauth_httpClient_def hasValidToken_def)
qed

subsection \<open>Response transformation\<close>

lemma Math_ceil_div_eq: "Math_ceil_div a b = - ((- a) div b)"
  by (simp add: Math_ceil_div_def ceiling_divide_eq_div)


lemmas parseFloat_eval =
  parseFloat_def isWhiteSpace_def isDigit_def digits_value_def parse_exponent_def
  decimal_to_double_def round_to_double_def binary_exponent_def scaled_le_def scale2_def
  log2floor.simps Let_def

lemma parseFloat_fixture_cost: "parseFloat ''25.50'' = Finite (51 / 2)"
  by (simp add: parseFloat_eval)


lemma parseFloat_tenth: "parseFloat ''0.1'' = Finite (3602879701896397 / 2 ^ 55)"
  by (simp add: parseFloat_eval)

lemma parseFloat_beyond_53_bits: "parseFloat ''9007199254740993'' = Finite 9007199254740992"
  by (simp add: parseFloat_eval)

lemma parseFloat_no_break_space: "parseFloat (char_of (160 :: nat) # ''7'') = Finite 7"
  by (simp add: parseFloat_eval)

text \<open>
  A decimal of magnitude 2 to the power 1024 or more has the Number value
  \<^verbatim>\<open>Infinity\<close>, which \<^verbatim>\<open>isNaN\<close> lets through.
\<close>

lemma log2floor_nonneg: "0 \<le> log2floor n"
proof (induction n rule: log2floor.induct)
  case (1 n)
  show ?case
  proof (cases "n < 2")
    case True
    then show ?thesis by (subst log2floor.simps) simp
  next
    case False
    then have "0 \<le> log2floor (n div 2)" using 1 by simp
    then show ?thesis using False by (subst log2floor.simps) simp
  qed
qed

lemma log2floor_bounds:
  "0 < n \<Longrightarrow> 2 ^ nat (log2floor n) \<le> n \<and> n < 2 * 2 ^ nat (log2floor n)"
proof (induction n rule: log2floor.induct)
  case (1 n)
  show ?case
  proof (cases "n < 2")
    case True
    with 1 have "n = 1" by simp
    then show ?thesis by (simp add: log2floor.simps)
  next
    case False
    then have pos: "0 < n div 2" by simp
    have ih: "2 ^ nat (log2floor (n div 2)) \<le> n div 2 \<and> n div 2 < 2 * 2 ^ nat (log2floor (n div 2))"
      using 1 False pos by simp
    have eq: "log2floor n = 1 + log2floor (n div 2)"
      using False by (subst log2floor.simps) simp
    have "nat (log2floor n) = Suc (nat (log2floor (n div 2)))"
      using eq log2floor_nonneg [of "n div 2"] by simp
    then show ?thesis using ih by (simp; linarith)
  qed
qed

lemma log2floor_ge:
  assumes "2 ^ k \<le> n"
  shows "int k \<le> log2floor n"
proof (rule ccontr)
  assume "\<not> int k \<le> log2floor n"
  then have "nat (log2floor n) + 1 \<le> k" using log2floor_nonneg [of n] by linarith
  then have "(2::int) ^ (nat (log2floor n) + 1) \<le> 2 ^ k"
    by (intro power_increasing) simp_all
  moreover have "(0::int) < 2 ^ k" by simp
  then have "0 < n" using assms by linarith
  ultimately show False using log2floor_bounds [of n] assms by simp
qed

lemma round_to_double_overflow:
  assumes "2 ^ 1024 \<le> n"
  shows "round_to_double n 1 = Infinity False"
proof -
  have "(0::int) < 2 ^ 1024" by simp
  then have npos: "0 < n" using assms by linarith
  define e where "e = log2floor n"
  have e1024: "1024 \<le> e" using log2floor_ge [of 1024 n] assms by (simp add: e_def)
  have lb: "2 ^ nat e \<le> n" using log2floor_bounds [OF npos] by (simp add: e_def)
  have be: "binary_exponent n 1 = e"
    using lb e1024 by (simp add: binary_exponent_def scaled_le_def e_def [symmetric] log2floor.simps [of 1])
  define s where "s = e - 52"
  have s972: "972 \<le> s" using e1024 by (simp add: s_def)
  have split: "(2::int) ^ nat e = 2 ^ 52 * 2 ^ nat s"
    using s972 by (simp add: s_def power_add [symmetric] nat_diff_distrib' del: power_numeral)
  have q: "2 ^ 52 \<le> n div 2 ^ nat s"
  proof -
    have "(2 ^ 52 * 2 ^ nat s) div 2 ^ nat s \<le> n div 2 ^ nat s"
      using lb split by (intro zdiv_mono1) simp_all
    then show ?thesis by simp
  qed
  have big: "2 ^ 1024 \<le> m * 2 ^ nat s" if "n div 2 ^ nat s \<le> m" for m :: int
  proof -
    have "(2::int) ^ 1024 \<le> 2 ^ nat e" using e1024 by (intro power_increasing) simp_all
    also have "\<dots> = 2 ^ 52 * 2 ^ nat s" by (rule split)
    also have "\<dots> \<le> m * 2 ^ nat s" using q that by (intro mult_right_mono) simp_all
    finally show ?thesis .
  qed
  show ?thesis
    using npos be s972 big [of "n div 2 ^ nat s"] big [of "n div 2 ^ nat s + 1"] e1024
    by (simp add: round_to_double_def Let_def s_def [symmetric] max_def del: power_numeral)
qed

lemma parseFloat_overflow: "parseFloat ''1e400'' = Infinity False"
proof -
  have "(2::int) ^ 1024 \<le> 10 ^ 400" by simp
  then show ?thesis
    using round_to_double_overflow [of "10 ^ 400"]
    by (simp add: parseFloat_def isWhiteSpace_def isDigit_def digits_value_def parse_exponent_def
          decimal_to_double_def del: power_numeral)
qed




lemma transformShipment_Inl_code:
  "transformShipment dp now shipment = Inl e \<Longrightarrow>
   code e = Some MALFORMED_RESPONSE \<and> instanceof_CarrierIntegrationError e"
  by (auto simp: transformShipment_def Let_def split: if_splits)

lemma map_throwing_Inl:
  "map_throwing f xs = Inl e \<Longrightarrow> \<exists>x\<in>set xs. f x = Inl e"
  by (induction xs) (auto split: sum.splits)

lemma map_throwing_fails:
  "x \<in> set xs \<Longrightarrow> f x = Inl e \<Longrightarrow> \<exists>e'. map_throwing f xs = Inl e'"
  by (induction xs) (auto split: sum.splits)

lemma map_throwing_Inr:
  "map_throwing f xs = Inr ys \<Longrightarrow> length ys = length xs \<and> (\<forall>i<length xs. f (xs ! i) = Inr (ys ! i))"
proof (induction xs arbitrary: ys)
  case Nil
  then show ?case by simp
next
  case (Cons x xs)
  then show ?case
    by (auto split: sum.splits simp: nth_Cons split: nat.splits)
qed

lemma map_throwing_Inr_map:
  "map_throwing f xs = Inr ys \<Longrightarrow> map f xs = map Inr ys"
  by (induction xs arbitrary: ys) (auto split: sum.splits)

lemma map_throwing_map_Inr:
  "map f xs = map Inr ys \<Longrightarrow> map_throwing f xs = Inr ys"
proof (induction xs arbitrary: ys)
  case Nil
  then show ?case by simp
next
  case (Cons x xs)
  then obtain y ys' where ys: "ys = y # ys'" by (cases ys) auto
  with Cons.prems have "f x = Inr y" and "map f xs = map Inr ys'" by auto
  with Cons.IH [of ys'] ys show ?case by simp
qed

lemma map_throwing_Inr_iff:
  "(map_throwing f xs = Inr ys) = (map f xs = map Inr ys)"
  using map_throwing_Inr_map map_throwing_map_Inr by blast


lemma transformResponse_null:
  "transformResponse dp now None = Inl (read_of_null ''RateResponse'')"
  by (simp add: transformResponse_def)

lemma transformResponse_success_envelope:
  "RateResponse response = Some rr \<Longrightarrow>
   Option.bind (Option.bind (Response rr) ResponseStatus) rs_Code = Some ''1'' \<Longrightarrow>
   transformResponse dp now (Some response) =
     (case RatedShipment rr of
        None \<Rightarrow> Inr []
      | Some shipments \<Rightarrow> map_throwing (transformShipment dp now) shipments)"
  by (cases "RatedShipment rr") (auto simp: transformResponse_def)

lemma transformResponse_Inl_classified:
  "transformResponse dp now (Some response) = Inl e \<Longrightarrow> instanceof_CarrierIntegrationError e"
  by (auto simp: transformResponse_def Let_def split: option.splits if_splits
           dest!: map_throwing_Inl transformShipment_Inl_code)

subsection \<open>The first rating dispatch\<close>

lemma dispatched_fields [simp]:
  "world (dispatched httpRequest w' s) = w'"
  "token (dispatched httpRequest w' s) = token s"
  "tokenRefreshPromise (dispatched httpRequest w' s) = tokenRefreshPromise s"
  "outbound (dispatched httpRequest w' s) = outbound s @ [RatingDispatch httpRequest]"
  by (simp_all add: dispatched_def)

lemma ups_request_eq:
  "ups_httpClient pf httpRequest (world s) = (outcome, w') \<Longrightarrow>
   ups_request pf httpRequest s = (outcome, dispatched httpRequest w' s)"
  by (simp add: ups_request_def dispatched_def)

lemma getRates_catch_classified:
  "instanceof_CarrierIntegrationError e \<Longrightarrow> getRates_catch e = e"
  by (simp add: getRates_catch_def)

lemma getRates_catch_timeout:
  "\<not> instanceof_CarrierIntegrationError e \<Longrightarrow> message e = ''Request timeout'' \<Longrightarrow>
   getRates_catch e = CarrierIntegrationError TIMEOUT ''UPS API request timed out'' (Some e)"
  by (simp add: getRates_catch_def)

lemma getRates_catch_other:
  "\<not> instanceof_CarrierIntegrationError e \<Longrightarrow> message e \<noteq> ''Request timeout'' \<Longrightarrow>
   getRates_catch e =
     CarrierIntegrationError NETWORK_ERROR ''Network error communicating with UPS API'' (Some e)"
  by (simp add: getRates_catch_def)

lemma getRates_catch_read_of_null:
  "getRates_catch (read_of_null p) =
     CarrierIntegrationError NETWORK_ERROR ''Network error communicating with UPS API''
       (Some (read_of_null p))"
  by (simp add: getRates_catch_def read_of_null_def)

text \<open>
  An error thrown while a body other than \<^verbatim>\<open>null\<close> is transformed is classified already,
  and the \<^verbatim>\<open>catch\<close> passes it on; the \<^verbatim>\<open>TypeError\<close> of a \<^verbatim>\<open>null\<close> body is not.
\<close>

lemma transformResponse_catch:
  "(case transformResponse dp now (Some b) of
      Inl error \<Rightarrow> (Inl (getRates_catch error), s)
    | Inr quotes \<Rightarrow> (Inr quotes, s))
     = (transformResponse dp now (Some b), s)"
  by (auto split: sum.splits dest: transformResponse_Inl_classified simp: getRates_catch_classified)

lemma transformResponse_null_catch:
  "(case transformResponse dp now None of
      Inl error \<Rightarrow> (Inl (getRates_catch error), s)
    | Inr quotes \<Rightarrow> (Inr quotes, s))
     = (Inl (CarrierIntegrationError NETWORK_ERROR ''Network error communicating with UPS API''
               (Some (read_of_null ''RateResponse''))), s)"
  by (simp add: transformResponse_null getRates_catch_read_of_null)

lemma UPSAdapter_getRates_token_failure:
  "getAccessToken pf oauthConfig s = (Inl e, s1) \<Longrightarrow>
   UPSAdapter_getRates pf oauthConfig config request s = (Inl e, s1)"
  by (simp add: UPSAdapter_getRates_def Let_def)

lemma UPSAdapter_getRates_raised:
  assumes "getAccessToken pf oauthConfig s = (Inr bearer, s1)"
    and "ups_httpClient pf (first_dispatch pf config request bearer s1) (world s1) = (Inl e, w')"
  shows "UPSAdapter_getRates pf oauthConfig config request s =
           (Inl (getRates_catch e), dispatched (first_dispatch pf config request bearer s1) w' s1)"
  using assms
  by (simp add: UPSAdapter_getRates_def getRates_try_def Let_def ups_request_eq
        first_dispatch_def [symmetric])

lemma UPSAdapter_getRates_status:
  assumes "getAccessToken pf oauthConfig s = (Inr bearer, s1)"
    and "ups_httpClient pf (first_dispatch pf config request bearer s1) (world s1) = (Inr response, w')"
    and "status response \<noteq> 401"
  shows "UPSAdapter_getRates pf oauthConfig config request s =
           ((if status response = 429 then
               Inl (CarrierIntegrationError RATE_LIMITED ''UPS API rate limit exceeded'' None)
             else if status response \<ge> 500 then
               Inl (CarrierIntegrationError CARRIER_UNAVAILABLE
                      (''UPS API returned server error: '' @ int_toString (status response)) None)
             else if status response \<noteq> 200 then
               Inl (CarrierIntegrationError INVALID_REQUEST
                      (''UPS API returned error status: '' @ int_toString (status response)) None)
             else
               (case body response of
                  None \<Rightarrow>
                    Inl (CarrierIntegrationError NETWORK_ERROR
                           ''Network error communicating with UPS API''
                           (Some (read_of_null ''RateResponse'')))
                | Some b \<Rightarrow> transformResponse (Date_parse pf) (Date_now pf w') (Some b))),
            dispatched (first_dispatch pf config request bearer s1) w' s1)"
proof (cases "body response")
  case None
  then show ?thesis
    using assms
    by (simp add: UPSAdapter_getRates_def getRates_try_def Let_def ups_request_eq
          first_dispatch_def [symmetric] getRates_catch_def transformResponse_null_catch)
next
  case (Some b)
  then show ?thesis
    using assms
    by (simp add: UPSAdapter_getRates_def getRates_try_def Let_def ups_request_eq
          first_dispatch_def [symmetric] getRates_catch_def transformResponse_catch)
qed

lemma UPSAdapter_getRates_ok:
  assumes "getAccessToken pf oauthConfig s = (Inr bearer, s1)"
    and "ups_httpClient pf (first_dispatch pf config request bearer s1) (world s1) = (Inr response, w')"
    and "status response = 200" and "body response = Some b"
  shows "UPSAdapter_getRates pf oauthConfig config request s =
           (transformResponse (Date_parse pf) (Date_now pf w') (Some b),
            dispatched (first_dispatch pf config request bearer s1) w' s1)"
  using UPSAdapter_getRates_status [OF assms(1,2)] assms(3,4) by simp

lemma transformResponse_missing_envelope:
  "RateResponse response = None \<Longrightarrow>
   transformResponse dp now (Some response) =
     Inl (CarrierIntegrationError MALFORMED_RESPONSE ''UPS response missing RateResponse'' None)"
  by (simp add: transformResponse_def)

lemma transformResponse_failure_envelope:
  "RateResponse response = Some rr \<Longrightarrow>
   Option.bind (Option.bind (Response rr) ResponseStatus) rs_Code \<noteq> Some ''1'' \<Longrightarrow>
   transformResponse dp now (Some response) =
     Inl (CarrierIntegrationError INVALID_REQUEST (''UPS API error: '' @ carrier_description rr) None)"
  by (simp add: transformResponse_def carrier_description_def Let_def or_default_def or_string_def)

lemma fixture_token_fetch:
  "a \<noteq> [] \<Longrightarrow> e \<noteq> 0 \<Longrightarrow>
   getAccessToken scripted_platform fixture_oauth_config
     (system_at now None (Inr (token_body_ok a e) # ts) rs) = (Inr a, fetched now a e ts rs)"
  by (simp add: getAccessToken_def acquireToken_def hasValidToken_def system_at_def
        scripted_platform_def scripted_oauth_httpClient_def token_body_ok_def
        acquireToken_settle_def acquireToken_try_def or_string_def fetched_def Let_def)

lemma fixture_ups_dispatch:
  "ups_httpClient scripted_platform req (world (fetched now a e ts (out # rs)))
     = (out, \<lparr> clock = now + 2, token_script = ts, rating_script = rs \<rparr>)"
  by (simp add: scripted_platform_def scripted_ups_httpClient_def fetched_def)

lemma fixture_ups_dispatch_ok:
  "ups_httpClient scripted_platform req (world (fetched now a e ts (ups_ok b # rs)))
     = (Inr \<lparr> status = 200, headers = [], body = Some b \<rparr>,
        \<lparr> clock = now + 2, token_script = ts, rating_script = rs \<rparr>)"
  by (simp add: scripted_platform_def scripted_ups_httpClient_def fetched_def ups_ok_def)

lemma int_toString_503: "int_toString 503 = ''503''"
  by (simp add: int_toString_def nat_digits.simps)

lemma int_toString_404: "int_toString 404 = ''404''"
  by (simp add: int_toString_def nat_digits.simps)

text \<open>
  Claim C4, as stated, fails for a first rating dispatch answered with status 200 and the
  JSON body \<^verbatim>\<open>null\<close>: the \<^verbatim>\<open>RateResponse\<close> envelope is missing, yet reading it
  throws a \<^verbatim>\<open>TypeError\<close>, which the \<^verbatim>\<open>catch\<close> classifies as NETWORK_ERROR, not
  MALFORMED_RESPONSE.
\<close>

theorem getRates_null_body_counterexample:
  "fst (UPSAdapter_getRates scripted_platform fixture_oauth_config fixture_ups_config fixture_request
          (system_at 0 None [Inr (token_body_ok ''tok'' 3600)]
             [Inr \<lparr> status = 200, headers = [], body = None \<rparr>])) =
     Inl (CarrierIntegrationError NETWORK_ERROR ''Network error communicating with UPS API''
            (Some (read_of_null ''RateResponse'')))"
proof -
  have tok: "getAccessToken scripted_platform fixture_oauth_config
      (system_at 0 None [Inr (token_body_ok ''tok'' 3600)]
         [Inr \<lparr> status = 200, headers = [], body = None \<rparr>]) =
     (Inr ''tok'', fetched 0 ''tok'' 3600 [] [Inr \<lparr> status = 200, headers = [], body = None \<rparr>])"
    by (simp add: fixture_token_fetch)
  have http: "ups_httpClient scripted_platform
      (first_dispatch scripted_platform fixture_ups_config fixture_request ''tok''
         (fetched 0 ''tok'' 3600 [] [Inr \<lparr> status = 200, headers = [], body = None \<rparr>]))
      (world (fetched 0 ''tok'' 3600 [] [Inr \<lparr> status = 200, headers = [], body = None \<rparr>])) =
     (Inr \<lparr> status = 200, headers = [], body = None \<rparr>,
      \<lparr> clock = 0 + 2, token_script = [], rating_script = [] \<rparr>)"
    by (rule fixture_ups_dispatch)
  show ?thesis
    using UPSAdapter_getRates_status [OF tok http] by simp
qed

text \<open>
  Claim C4, amended. Once the token is fetched, the outcome of the first rating dispatch is
  classified: status 429 fails with RATE_LIMITED; status 500 or more with CARRIER_UNAVAILABLE;
  any other status than 200 and 401 with INVALID_REQUEST; a transport timeout with TIMEOUT;
  any other failure raised by the transport with NETWORK_ERROR and the error as cause; status
  200 with a body other than \<^verbatim>\<open>null\<close> that has no \<^verbatim>\<open>RateResponse\<close> envelope with
  MALFORMED_RESPONSE; status 200 with an envelope whose \<^verbatim>\<open>ResponseStatus.Code\<close> is not
  \<^verbatim>\<open>"1"\<close> with INVALID_REQUEST carrying the carrier's description. A failure raised by
  the transport is an error that is not a \<^verbatim>\<open>CarrierIntegrationError\<close>, and its timeout
  the one whose message is \<^verbatim>\<open>Request timeout\<close>.
\<close>

theorem getRates_first_dispatch_classification:
  assumes tok: "getAccessToken pf oauthConfig s = (Inr bearer, s1)"
    and http: "ups_httpClient pf (first_dispatch pf config request bearer s1) (world s1) = (outcome, w')"
  shows "(outcome = Inr response \<and> status response = 429 \<longrightarrow>
            fst (UPSAdapter_getRates pf oauthConfig config request s) =
              Inl (CarrierIntegrationError RATE_LIMITED ''UPS API rate limit exceeded'' None))
       \<and> (outcome = Inr response \<and> status response \<ge> 500 \<longrightarrow>
            fst (UPSAdapter_getRates pf oauthConfig config request s) =
              Inl (CarrierIntegrationError CARRIER_UNAVAILABLE
                     (''UPS API returned server error: '' @ int_toString (status response)) None))
       \<and> (outcome = Inr response \<and> status response \<noteq> 200 \<and> status response \<noteq> 401
            \<and> status response \<noteq> 429 \<and> status response < 500 \<longrightarrow>
            fst (UPSAdapter_getRates pf oauthConfig config request s) =
              Inl (CarrierIntegrationError INVALID_REQUEST
                     (''UPS API returned error status: '' @ int_toString (status response)) None))
       \<and> (outcome = Inl e \<and> \<not> instanceof_CarrierIntegrationError e
            \<and> message e = ''Request timeout'' \<longrightarrow>
            fst (UPSAdapter_getRates pf oauthConfig config request s) =
              Inl (CarrierIntegrationError TIMEOUT ''UPS API request timed out'' (Some e)))
       \<and> (outcome = Inl e \<and> \<not> instanceof_CarrierIntegrationError e
            \<and> message e \<noteq> ''Request timeout'' \<longrightarrow>
            fst (UPSAdapter_getRates pf oauthConfig config request s) =
              Inl (CarrierIntegrationError NETWORK_ERROR ''Network error communicating with UPS API''
                     (Some e)))
       \<and> (outcome = Inr response \<and> status response = 200 \<and> body response = Some b
            \<and> RateResponse b = None \<longrightarrow>
            fst (UPSAdapter_getRates pf oauthConfig config request s) =
              Inl (CarrierIntegrationError MALFORMED_RESPONSE ''UPS response missing RateResponse'' None))
       \<and> (outcome = Inr response \<and> status response = 200 \<and> body response = Some b
            \<and> RateResponse b = Some rr
            \<and> Option.bind (Option.bind (Response rr) ResponseStatus) rs_Code \<noteq> Some ''1'' \<longrightarrow>
            fst (UPSAdapter_getRates pf oauthConfig config request s) =
              Inl (CarrierIntegrationError INVALID_REQUEST
                     (''UPS API error: '' @ carrier_description rr) None))"
proof -
  have raised: "outcome = Inl e \<Longrightarrow>
      fst (UPSAdapter_getRates pf oauthConfig config request s) = Inl (getRates_catch e)"
    using UPSAdapter_getRates_raised [OF tok, of config request e w'] http by simp
  have answered: "outcome = Inr response \<Longrightarrow> status response \<noteq> 401 \<Longrightarrow>
      fst (UPSAdapter_getRates pf oauthConfig config request s) =
        (if status response = 429 then
           Inl (CarrierIntegrationError RATE_LIMITED ''UPS API rate limit exceeded'' None)
         else if status response \<ge> 500 then
           Inl (CarrierIntegrationError CARRIER_UNAVAILABLE
                  (''UPS API returned server error: '' @ int_toString (status response)) None)
         else if status response \<noteq> 200 then
           Inl (CarrierIntegrationError INVALID_REQUEST
                  (''UPS API returned error status: '' @ int_toString (status response)) None)
         else
           (case body response of
              None \<Rightarrow>
                Inl (CarrierIntegrationError NETWORK_ERROR
                       ''Network error communicating with UPS API''
                       (Some (read_of_null ''RateResponse'')))
            | Some b \<Rightarrow> transformResponse (Date_parse pf) (Date_now pf w') (Some b)))"
    using UPSAdapter_getRates_status [OF tok, of config request response w'] http by simp
  show ?thesis
  proof (intro conjI impI)
    assume "outcome = Inr response \<and> status response = 429"
    then show "fst (UPSAdapter_getRates pf oauthConfig config request s) =
              Inl (CarrierIntegrationError RATE_LIMITED ''UPS API rate limit exceeded'' None)"
      using answered by simp
  next
    assume "outcome = Inr response \<and> status response \<ge> 500"
    then show "fst (UPSAdapter_getRates pf oauthConfig config request s) =
              Inl (CarrierIntegrationError CARRIER_UNAVAILABLE
                     (''UPS API returned server error: '' @ int_toString (status response)) None)"
      using answered by simp
  next
    assume "outcome = Inr response \<and> status response \<noteq> 200 \<and> status response \<noteq> 401
            \<and> status response \<noteq> 429 \<and> status response < 500"
    then show "fst (UPSAdapter_getRates pf oauthConfig config request s) =
              Inl (CarrierIntegrationError INVALID_REQUEST
                     (''UPS API returned error status: '' @ int_toString (status response)) None)"
      using answered by simp
  next
    assume "outcome = Inl e \<and> \<not> instanceof_CarrierIntegrationError e
            \<and> message e = ''Request timeout''"
    then show "fst (UPSAdapter_getRates pf oauthConfig config request s) =
              Inl (CarrierIntegrationError TIMEOUT ''UPS API request timed out'' (Some e))"
      using raised getRates_catch_timeout [of e] by simp
  next
    assume "outcome = Inl e \<and> \<not> instanceof_CarrierIntegrationError e
            \<and> message e \<noteq> ''Request timeout''"
    then show "fst (UPSAdapter_getRates pf oauthConfig config request s) =
              Inl (CarrierIntegrationError NETWORK_ERROR ''Network error communicating with UPS API''
                     (Some e))"
      using raised getRates_catch_other [of e] by simp
  next
    assume "outcome = Inr response \<and> status response = 200 \<and> body response = Some b
            \<and> RateResponse b = None"
    then show "fst (UPSAdapter_getRates pf oauthConfig config request s) =
              Inl (CarrierIntegrationError MALFORMED_RESPONSE ''UPS response missing RateResponse'' None)"
      using answered by (simp add: transformResponse_missing_envelope)
  next
    assume "outcome = Inr response \<and> status response = 200 \<and> body response = Some b
            \<and> RateResponse b = Some rr
            \<and> Option.bind (Option.bind (Response rr) ResponseStatus) rs_Code \<noteq> Some ''1''"
    then show "fst (UPSAdapter_getRates pf oauthConfig config request s) =
              Inl (CarrierIntegrationError INVALID_REQUEST
                     (''UPS API error: '' @ carrier_description rr) None)"
      using answered by (simp add: transformResponse_failure_envelope)
  qed
qed

theorem getRates_first_dispatch_classification_witness:
  "fst (UPSAdapter_getRates scripted_platform fixture_oauth_config fixture_ups_config fixture_request
          (system_at 0 None [Inr (token_body_ok ''tok'' 3600)] [ups_status 429])) =
     Inl (CarrierIntegrationError RATE_LIMITED ''UPS API rate limit exceeded'' None)
   \<and> fst (UPSAdapter_getRates scripted_platform fixture_oauth_config fixture_ups_config fixture_request
          (system_at 0 None [Inr (token_body_ok ''tok'' 3600)] [ups_status 503])) =
     Inl (CarrierIntegrationError CARRIER_UNAVAILABLE ''UPS API returned server error: 503'' None)
   \<and> fst (UPSAdapter_getRates scripted_platform fixture_oauth_config fixture_ups_config fixture_request
          (system_at 0 None [Inr (token_body_ok ''tok'' 3600)] [ups_status 404])) =
     Inl (CarrierIntegrationError INVALID_REQUEST ''UPS API returned error status: 404'' None)
   \<and> fst (UPSAdapter_getRates scripted_platform fixture_oauth_config fixture_ups_config fixture_request
          (system_at 0 None [Inr (token_body_ok ''tok'' 3600)] [Inl (Error ''Request timeout'')])) =
     Inl (CarrierIntegrationError TIMEOUT ''UPS API request timed out''
            (Some (Error ''Request timeout'')))
   \<and> fst (UPSAdapter_getRates scripted_platform fixture_oauth_config fixture_ups_config fixture_request
          (system_at 0 None [Inr (token_body_ok ''tok'' 3600)] [Inl (TypeError ''fetch failed'')])) =
     Inl (CarrierIntegrationError NETWORK_ERROR ''Network error communicating with UPS API''
            (Some (TypeError ''fetch failed'')))
   \<and> fst (UPSAdapter_getRates scripted_platform fixture_oauth_config fixture_ups_config fixture_request
          (system_at 0 None [Inr (token_body_ok ''tok'' 3600)] [ups_status 200])) =
     Inl (CarrierIntegrationError MALFORMED_RESPONSE ''UPS response missing RateResponse'' None)
   \<and> fst (UPSAdapter_getRates scripted_platform fixture_oauth_config fixture_ups_config fixture_request
          (system_at 0 None [Inr (token_body_ok ''tok'' 3600)] [ups_ok failure_envelope])) =
     Inl (CarrierIntegrationError INVALID_REQUEST ''UPS API error: Failure'' None)"
proof -
  have "fst (UPSAdapter_getRates scripted_platform fixture_oauth_config fixture_ups_config fixture_request
          (system_at 0 None [Inr (token_body_ok ''tok'' 3600)] [ups_status 429])) =
     Inl (CarrierIntegrationError RATE_LIMITED ''UPS API rate limit exceeded'' None)"
    using getRates_first_dispatch_classification
            [OF fixture_token_fetch [of "''tok''" 3600 0 "[]" "[ups_status 429]"] fixture_ups_dispatch,
             where config = fixture_ups_config and request = fixture_request
               and response = "\<lparr> status = 429, headers = [], body = Some \<lparr> RateResponse = None \<rparr> \<rparr>",
             THEN conjunct1]
    by (simp add: ups_status_def)
  moreover
  have "fst (UPSAdapter_getRates scripted_platform fixture_oauth_config fixture_ups_config fixture_request
          (system_at 0 None [Inr (token_body_ok ''tok'' 3600)] [ups_status 503])) =
     Inl (CarrierIntegrationError CARRIER_UNAVAILABLE ''UPS API returned server error: 503'' None)"
    using getRates_first_dispatch_classification
            [OF fixture_token_fetch [of "''tok''" 3600 0 "[]" "[ups_status 503]"] fixture_ups_dispatch,
             where config = fixture_ups_config and request = fixture_request
               and response = "\<lparr> status = 503, headers = [], body = Some \<lparr> RateResponse = None \<rparr> \<rparr>",
             THEN conjunct2, THEN conjunct1]
    by (simp add: ups_status_def int_toString_503)
  moreover
  have "fst (UPSAdapter_getRates scripted_platform fixture_oauth_config fixture_ups_config fixture_request
          (system_at 0 None [Inr (token_body_ok ''tok'' 3600)] [ups_status 404])) =
     Inl (CarrierIntegrationError INVALID_REQUEST ''UPS API returned error status: 404'' None)"
    using getRates_first_dispatch_classification
            [OF fixture_token_fetch [of "''tok''" 3600 0 "[]" "[ups_status 404]"] fixture_ups_dispatch,
             where config = fixture_ups_config and request = fixture_request
               and response = "\<lparr> status = 404, headers = [], body = Some \<lparr> RateResponse = None \<rparr> \<rparr>",
             THEN conjunct2, THEN conjunct2, THEN conjunct1]
    by (simp add: ups_status_def int_toString_404)
  moreover
  have "fst (UPSAdapter_getRates scripted_platform fixture_oauth_config fixture_ups_config fixture_request
          (system_at 0 None [Inr (token_body_ok ''tok'' 3600)] [Inl (Error ''Request timeout'')])) =
     Inl (CarrierIntegrationError TIMEOUT ''UPS API request timed out''
            (Some (Error ''Request timeout'')))"
    using getRates_first_dispatch_classification
            [OF fixture_token_fetch [of "''tok''" 3600 0 "[]" "[Inl (Error ''Request timeout'')]"] fixture_ups_dispatch,
             where config = fixture_ups_config and request = fixture_request
               and e = "Error ''Request timeout''",
             THEN conjunct2, THEN conjunct2, THEN conjunct2, THEN conjunct1]
    by simp
  moreover
  have "fst (UPSAdapter_getRates scripted_platform fixture_oauth_config fixture_ups_config fixture_request
          (system_at 0 None [Inr (token_body_ok ''tok'' 3600)] [Inl (TypeError ''fetch failed'')])) =
     Inl (CarrierIntegrationError NETWORK_ERROR ''Network error communicating with UPS API''
            (Some (TypeError ''fetch failed'')))"
    using getRates_first_dispatch_classification
            [OF fixture_token_fetch [of "''tok''" 3600 0 "[]" "[Inl (TypeError ''fetch failed'')]"] fixture_ups_dispatch,
             where config = fixture_ups_config and request = fixture_request
               and e = "TypeError ''fetch failed''",
             THEN conjunct2, THEN conjunct2, THEN conjunct2, THEN conjunct2, THEN conjunct1]
    by simp
  moreover
  have "fst (UPSAdapter_getRates scripted_platform fixture_oauth_config fixture_ups_config fixture_request
          (system_at 0 None [Inr (token_body_ok ''tok'' 3600)] [ups_status 200])) =
     Inl (CarrierIntegrationError MALFORMED_RESPONSE ''UPS response missing RateResponse'' None)"
    using getRates_first_dispatch_classification
            [OF fixture_token_fetch [of "''tok''" 3600 0 "[]" "[ups_status 200]"] fixture_ups_dispatch,
             where config = fixture_ups_config and request = fixture_request
               and response = "\<lparr> status = 200, headers = [], body = Some \<lparr> RateResponse = None \<rparr> \<rparr>"
               and b = "\<lparr> RateResponse = None \<rparr>",
             THEN conjunct2, THEN conjunct2, THEN conjunct2, THEN conjunct2, THEN conjunct2,
             THEN conjunct1]
    by (simp add: ups_status_def)
  moreover
  have "fst (UPSAdapter_getRates scripted_platform fixture_oauth_config fixture_ups_config fixture_request
          (system_at 0 None [Inr (token_body_ok ''tok'' 3600)] [ups_ok failure_envelope])) =
     Inl (CarrierIntegrationError INVALID_REQUEST ''UPS API error: Failure'' None)"
    using getRates_first_dispatch_classification
            [OF fixture_token_fetch [of "''tok''" 3600 0 "[]" "[ups_ok failure_envelope]"] fixture_ups_dispatch,
             where config = fixture_ups_config and request = fixture_request
               and response = "\<lparr> status = 200, headers = [], body = Some failure_envelope \<rparr>"
               and b = failure_envelope
               and rr = "the (RateResponse failure_envelope)",
             THEN conjunct2, THEN conjunct2, THEN conjunct2, THEN conjunct2, THEN conjunct2,
             THEN conjunct2]
    by (simp add: ups_ok_def failure_envelope_def carrier_description_def)
  ultimately show ?thesis by blast
qed

subsection \<open>The cost of a quote\<close>








subsection \<open>Empty shipment lists\<close>

text \<open>
  Claim C8. A status-200 answer to the first rating dispatch whose envelope reports success
  (\<^verbatim>\<open>ResponseStatus.Code\<close> is \<^verbatim>\<open>"1"\<close>) and whose \<^verbatim>\<open>RatedShipment\<close> list is absent or
  empty makes \<^verbatim>\<open>getRates\<close> return the empty list of quotes, not an error.
\<close>

theorem getRates_empty_shipments:
  assumes "getAccessToken pf oauthConfig s = (Inr bearer, s1)"
    and "ups_httpClient pf (first_dispatch pf config request bearer s1) (world s1) = (Inr response, w')"
    and "status response = 200"
    and "Option.bind (body response) RateResponse = Some rr"
    and "Option.bind (Option.bind (Response rr) ResponseStatus) rs_Code = Some ''1''"
    and "RatedShipment rr = None \<or> RatedShipment rr = Some []"
  shows "fst (UPSAdapter_getRates pf oauthConfig config request s) = Inr []"
proof -
  obtain b where b: "body response = Some b" "RateResponse b = Some rr"
    using assms(4) by (cases "body response") auto
  have "transformResponse (Date_parse pf) (Date_now pf w') (Some b) = Inr []"
    using assms(6) transformResponse_success_envelope [OF b(2) assms(5)] by auto
  then show ?thesis
    using UPSAdapter_getRates_ok [OF assms(1,2,3) b(1)] by simp
qed

theorem getRates_empty_shipments_witness:
  "fst (UPSAdapter_getRates scripted_platform fixture_oauth_config fixture_ups_config fixture_request
          (system_at 0 None [Inr (token_body_ok ''tok'' 3600)] [ups_ok (success_envelope None)])) = Inr []
   \<and> fst (UPSAdapter_getRates scripted_platform fixture_oauth_config fixture_ups_config fixture_request
          (system_at 0 None [Inr (token_body_ok ''tok'' 3600)] [ups_ok (success_envelope (Some []))])) = Inr []"
proof (intro conjI)
  show "fst (UPSAdapter_getRates scripted_platform fixture_oauth_config fixture_ups_config fixture_request
          (system_at 0 None [Inr (token_body_ok ''tok'' 3600)] [ups_ok (success_envelope None)])) = Inr []"
    by (rule getRates_empty_shipments
          [OF fixture_token_fetch [of "''tok''" 3600 0 "[]" "[ups_ok (success_envelope None)]"]
              fixture_ups_dispatch_ok,
           where rr = "the (RateResponse (success_envelope None))"])
       (simp_all add: success_envelope_def)
  show "fst (UPSAdapter_getRates scripted_platform fixture_oauth_config fixture_ups_config fixture_request
          (system_at 0 None [Inr (token_body_ok ''tok'' 3600)] [ups_ok (success_envelope (Some []))])) = Inr []"
    by (rule getRates_empty_shipments
          [OF fixture_token_fetch [of "''tok''" 3600 0 "[]" "[ups_ok (success_envelope (Some []))]"]
              fixture_ups_dispatch_ok,
           where rr = "the (RateResponse (success_envelope (Some [])))"])
       (simp_all add: success_envelope_def)
qed


subsection \<open>Transit-day estimate\<close>

text \<open>
  Claim C6, as stated, fails when the delivery instant is the present: the difference is
  zero, its ceiling is zero, and the quote reports an estimate of 0 days instead of
  leaving it out.
\<close>

theorem estimatedDays_zero_counterexample:
  "Math_ceil_div (1770854400000 - 1770854400000) (1000 * 60 * 60 * 24) = 0
   \<and> map_sum id estimatedDays (transformShipment fixture_Date_parse 1770854400000 fixture_ground_shipment)
       = Inr (Some (Finite 0))"
  by (simp add: Math_ceil_div_eq transformShipment_def fixture_ground_shipment_def Let_def
        parseFloat_fixture_cost isNaN_def estimateDays_def)

text \<open>
  Claim C6, amended. For a rated shipment that yields a quote and carries a guaranteed
  delivery date, the estimate is the ceiling of the difference between the delivery
  instant and now in days (\<^verbatim>\<open>NaN\<close> when the date does not parse); it is left out only
  when negative, and reported when zero or positive.
\<close>

theorem estimatedDays_ceiling:
  assumes "transformShipment dp now shipment = Inr q"
    and "Option.bind (GuaranteedDelivery shipment) gd_Date = Some d" and "d \<noteq> []"
  shows "estimatedDays q =
           (case dp d of
              None \<Rightarrow> Some NaN
            | Some deliveryTime \<Rightarrow>
                if \<lceil>real_of_int (deliveryTime - now) / (1000 * 60 * 60 * 24)\<rceil> < 0 then None
                else Some (Finite (rat_of_int
                       \<lceil>real_of_int (deliveryTime - now) / (1000 * 60 * 60 * 24)\<rceil>)))"
proof -
  have "estimatedDays q = estimateDays dp now d"
    using assms by (auto simp: transformShipment_def Let_def split: if_splits)
  then show ?thesis
    by (simp add: estimateDays_def Math_ceil_div_def Let_def split: option.splits)
qed

theorem estimatedDays_ceiling_witness:
  "map_sum id estimatedDays (transformShipment fixture_Date_parse 1770000000000 fixture_ground_shipment)
     = Inr (Some (Finite 10))
   \<and> map_sum id estimatedDays (transformShipment fixture_Date_parse 1770854400001 fixture_ground_shipment)
     = Inr (Some (Finite 0))
   \<and> map_sum id estimatedDays (transformShipment fixture_Date_parse 1770940800000 fixture_ground_shipment)
     = Inr None"
proof -
  have q: "\<exists>q. transformShipment fixture_Date_parse now fixture_ground_shipment = Inr q" for now
    by (simp add: transformShipment_def fixture_ground_shipment_def Let_def
          parseFloat_fixture_cost isNaN_def)
  have c: "\<lceil>real_of_int a / (1000 * 60 * 60 * 24)\<rceil> = - ((- a) div 86400000)" for a
    using Math_ceil_div_eq [of a 86400000] by (simp add: Math_ceil_div_def)
  have r: "transformShipment fixture_Date_parse now fixture_ground_shipment = Inr q \<Longrightarrow>
           estimatedDays q =
             (if - ((- (1770854400000 - now)) div 86400000) < 0 then None
              else Some (Finite (rat_of_int (- ((- (1770854400000 - now)) div 86400000))))) " for now q
    using estimatedDays_ceiling [of fixture_Date_parse now fixture_ground_shipment q "''2026-02-12''"]
    unfolding c by (simp add: fixture_ground_shipment_def)
  show ?thesis
    using q [of 1770000000000] q [of 1770854400001] q [of 1770940800000]
          r [of 1770000000000] r [of 1770854400001] r [of 1770940800000]
    by auto
qed


subsection \<open>Facade: failures of single carriers\<close>

text \<open>
  Claim C9. For a valid request, the facade returns the concatenation, in the carriers'
  order, of the quotes of the carriers that succeed; a carrier that fails contributes the
  empty list and its failure is not passed on.
\<close>

theorem facade_getRates_isolates_failures:
  assumes "RateRequestSchema request"
  shows "CarrierIntegrationService_getRates zod_message carriers request =
           Inr (concat (map (\<lambda>c. case getRates c request of Inr quotes \<Rightarrow> quotes | Inl e \<Rightarrow> []) carriers))"
proof -
  have "snd (carrier_result request c) = (case getRates c request of Inr quotes \<Rightarrow> quotes | Inl e \<Rightarrow> [])" for c
    by (simp add: carrier_result_def split: sum.splits)
  then show ?thesis
    using assms by (simp add: CarrierIntegrationService_getRates_def comp_def)
qed

theorem facade_getRates_isolates_failures_witness:
  "RateRequestSchema fixture_request
   \<and> CarrierIntegrationService_getRates fixture_zod_message [failing_carrier, quoting_carrier]
         fixture_request = Inr [fixture_quote]"
proof -
  have v: "RateRequestSchema fixture_request"
    by (simp add: RateRequestSchema_def AddressSchema_def PackageSchema_def fixture_request_def
          fixture_address_def)
  show ?thesis
    using v facade_getRates_isolates_failures [OF v, of fixture_zod_message
            "[failing_carrier, quoting_carrier]"]
    by (simp add: failing_carrier_def quoting_carrier_def)
qed


subsection \<open>The retry after a 401\<close>

lemma UPSAdapter_getRates_retry:
  assumes "getAccessToken pf oauthConfig s = (Inr bearer, s1)"
    and "ups_httpClient pf (first_dispatch pf config request bearer s1) (world s1) = (Inr response, w')"
    and "status response = 401"
    and "getAccessToken pf oauthConfig
           (clearToken (dispatched (first_dispatch pf config request bearer s1) w' s1)) = (Inr newToken, s3)"
    and "ups_httpClient pf (retry_dispatch (first_dispatch pf config request bearer s1) newToken) (world s3)
           = (Inr retryResponse, w'')"
  shows "UPSAdapter_getRates pf oauthConfig config request s =
           ((case body retryResponse of
               None \<Rightarrow>
                 Inl (CarrierIntegrationError NETWORK_ERROR
                        ''Network error communicating with UPS API''
                        (Some (read_of_null ''RateResponse'')))
             | Some b \<Rightarrow> transformResponse (Date_parse pf) (Date_now pf w'') (Some b)),
            dispatched (retry_dispatch (first_dispatch pf config request bearer s1) newToken) w'' s3)"
proof (cases "body retryResponse")
  case None
  then show ?thesis
    using assms
    by (simp add: UPSAdapter_getRates_def getRates_try_def Let_def ups_request_eq
          first_dispatch_def [symmetric] transformResponse_null_catch)
next
  case (Some b)
  then show ?thesis
    using assms
    by (simp add: UPSAdapter_getRates_def getRates_try_def Let_def ups_request_eq
          first_dispatch_def [symmetric] transformResponse_catch)
qed

lemma getAccessToken_rating_dispatches:
  "rating_dispatches (snd (getAccessToken pf oauthConfig s)) = rating_dispatches s"
  by (auto simp: getAccessToken_def acquireToken_def rating_dispatches_def Let_def
           split: prod.splits sum.splits option.splits)

lemma ups_request_rating_dispatches:
  "rating_dispatches (snd (ups_request pf r s)) = rating_dispatches s @ [RatingDispatch r]"
  by (simp add: ups_request_def rating_dispatches_def Let_def split: prod.splits)

lemma getRates_try_at_most_two:
  "length (rating_dispatches (snd (getRates_try pf oauthConfig httpRequest s)))
     \<le> length (rating_dispatches s) + 2"
proof -
  obtain outcome s1 where u: "ups_request pf httpRequest s = (outcome, s1)" by force
  have l1: "length (rating_dispatches s1) = length (rating_dispatches s) + 1"
    using ups_request_rating_dispatches [of pf httpRequest s] u by simp
  show ?thesis
  proof (cases outcome)
    case (Inl e)
    then show ?thesis using u l1 by (simp add: getRates_try_def)
  next
    case (Inr response)
    show ?thesis
    proof (cases "status response = 401")
      case False
      then show ?thesis using u l1 Inr by (simp add: getRates_try_def)
    next
      case True
      obtain r s3 where g: "getAccessToken pf oauthConfig (clearToken s1) = (r, s3)" by force
      have l3: "length (rating_dispatches s3) = length (rating_dispatches s) + 1"
        using getAccessToken_rating_dispatches [of pf oauthConfig "clearToken s1"] g l1
        by (simp add: clearToken_def rating_dispatches_def)
      show ?thesis
      proof (cases r)
        case (Inl e)
        then show ?thesis using u Inr True g l3 by (simp add: getRates_try_def)
      next
        case (Inr newToken)
        obtain ro s4 where u2: "ups_request pf (retry_dispatch httpRequest newToken) s3 = (ro, s4)"
          by force
        have l4: "length (rating_dispatches s4) = length (rating_dispatches s) + 2"
          using ups_request_rating_dispatches [of pf "retry_dispatch httpRequest newToken" s3] u2 l3
          by simp
        show ?thesis
          using u \<open>outcome = Inr response\<close> True g Inr u2 l4
          by (simp add: getRates_try_def split: sum.splits)
      qed
    qed
  qed
qed

lemma getRates_at_most_two_dispatches:
  "length (rating_dispatches (snd (UPSAdapter_getRates pf oauthConfig config request s)))
     \<le> length (rating_dispatches s) + 2"
proof -
  obtain r s1 where g: "getAccessToken pf oauthConfig s = (r, s1)" by force
  have l1: "rating_dispatches s1 = rating_dispatches s"
    using getAccessToken_rating_dispatches [of pf oauthConfig s] g by simp
  show ?thesis
  proof (cases r)
    case (Inl e)
    then show ?thesis using g l1 by (simp add: UPSAdapter_getRates_def)
  next
    case (Inr bearer)
    then show ?thesis
      using g l1 getRates_try_at_most_two [of pf oauthConfig
                "first_dispatch pf config request bearer s1" s1]
      by (auto simp: UPSAdapter_getRates_def Let_def first_dispatch_def [symmetric]
               split: prod.splits sum.splits)
  qed
qed

text \<open>
  Claim C1 at a concrete run: the first rating dispatch is answered 401, the token is
  acquired again, and the retried dispatch is answered 429 with a body without a
  \<^verbatim>\<open>RateResponse\<close> envelope. Two rating dispatches and two token requests go out, and
  the call fails with MALFORMED_RESPONSE: the status of the retry's answer is never looked at.
\<close>

theorem getRates_retry_status_not_classified:
  "fst (UPSAdapter_getRates scripted_platform fixture_oauth_config fixture_ups_config fixture_request
          (system_at 0 None [Inr (token_body_ok ''stale'' 3600), Inr (token_body_ok ''fresh'' 3600)]
             [ups_status 401, ups_status 429]))
     = Inl (CarrierIntegrationError MALFORMED_RESPONSE ''UPS response missing RateResponse'' None)
   \<and> map is_RatingDispatch
         (outbound (snd (UPSAdapter_getRates scripted_platform fixture_oauth_config fixture_ups_config
            fixture_request
            (system_at 0 None [Inr (token_body_ok ''stale'' 3600), Inr (token_body_ok ''fresh'' 3600)]
               [ups_status 401, ups_status 429]))))
     = [False, True, False, True]"
  by (simp add: UPSAdapter_getRates_def getRates_try_def getAccessToken_def acquireToken_def
        hasValidToken_def clearToken_def ups_request_def system_at_def scripted_platform_def
        scripted_oauth_httpClient_def scripted_ups_httpClient_def token_body_ok_def ups_status_def
        acquireToken_settle_def acquireToken_try_def or_string_def Let_def
        transformResponse_def getRates_catch_def)


subsection \<open>Interleaved callers of \<^verbatim>\<open>getAccessToken\<close>\<close>

lemma run_append:
  "run config (es @ fs) s = (case run config es s of None \<Rightarrow> None | Some s' \<Rightarrow> run config fs s')"
  by (induction es arbitrary: s) (auto split: option.splits)

lemma run_joiners:
  assumes "length cs = length nows" and "distinct cs"
    and "\<forall>c\<in>set cs. callers s c = None"
    and "\<forall>now\<in>set nows. \<not> cached_valid s now"
    and "refreshPromise s = Some p"
  shows "run config (calls cs nows) s =
           Some (s\<lparr> callers := (\<lambda>c. if c \<in> set cs then Some (Joiner p) else callers s c) \<rparr>)"
  using assms
proof (induction cs nows arbitrary: s rule: list_induct2)
  case Nil
  then show ?case by (simp add: calls_def)
next
  case (Cons c cs now nows)
  let ?s1 = "s\<lparr> callers := (callers s)(c \<mapsto> Joiner p) \<rparr>"
  have st: "step config (Call c now) s = Some ?s1"
    using Cons.prems by simp
  have ih: "run config (calls cs nows) ?s1 =
              Some (?s1\<lparr> callers := (\<lambda>d. if d \<in> set cs then Some (Joiner p) else callers ?s1 d) \<rparr>)"
    using Cons.prems by (intro Cons.IH) (auto simp: cached_valid_def)
  have "(\<lambda>d. if d \<in> set cs then Some (Joiner p) else callers ?s1 d)
          = (\<lambda>d. if d \<in> set (c # cs) then Some (Joiner p) else callers s d)"
    by (rule ext) auto
  then show ?case using st ih by (simp add: calls_def)
qed

lemma run_resumes:
  assumes "p < length (promises s)" and "promises s ! p = Some r"
    and "distinct order"
    and "\<forall>c\<in>set order. callers s c = Some (Owner p) \<or> callers s c = Some (Joiner p)"
  shows "\<exists>s'. run config (map Resume order) s = Some s'
           \<and> (\<forall>c. callers s' c = (if c \<in> set order then Some (Returned (settled_string r)) else callers s c))
           \<and> requests s' = requests s
           \<and> promises s' = promises s
           \<and> refreshPromise s' =
               (if \<exists>c\<in>set order. callers s c = Some (Owner p) then None else refreshPromise s)
           \<and> cached s' =
               (if \<exists>c\<in>set order. callers s c = Some (Owner p)
                then (case r of Inl error \<Rightarrow> cached s | Inr t \<Rightarrow> Some t)
                else cached s)"
  using assms
proof (induction order arbitrary: s)
  case Nil
  then show ?case by simp
next
  case (Cons c order)
  have waiting: "callers s c = Some (Owner p) \<or> callers s c = Some (Joiner p)"
    using Cons.prems(4) by simp
  have notin: "c \<notin> set order" and dist: "distinct order"
    using Cons.prems(3) by simp_all
  obtain s1 where s1: "step config (Resume c) s = Some s1"
    and callers1: "callers s1 = (callers s)(c \<mapsto> Returned (settled_string r))"
    and requests1: "requests s1 = requests s"
    and promises1: "promises s1 = promises s"
    and refresh1: "refreshPromise s1 = (if callers s c = Some (Owner p) then None else refreshPromise s)"
    and cached1: "cached s1 = (if callers s c = Some (Owner p)
                               then (case r of Inl error \<Rightarrow> cached s | Inr t \<Rightarrow> Some t)
                               else cached s)"
  proof (cases "callers s c = Some (Owner p)")
    case True
    show ?thesis
    proof (cases r)
      case (Inl error)
      show ?thesis
        by (rule that [of "s\<lparr> refreshPromise := None,
                                 callers := (callers s)(c \<mapsto> Returned (Inl error)) \<rparr>"])
           (use True Inl Cons.prems(1,2) in \<open>simp_all add: settled_string_def\<close>)
    next
      case (Inr t)
      show ?thesis
        by (rule that [of "s\<lparr> cached := Some t, refreshPromise := None,
                                 callers := (callers s)(c \<mapsto> Returned (Inr (accessToken t))) \<rparr>"])
           (use True Inr Cons.prems(1,2) in \<open>simp_all add: settled_string_def\<close>)
    qed
  next
    case False
    with waiting have j: "callers s c = Some (Joiner p)" by simp
    show ?thesis
      by (rule that [of "s\<lparr> callers := (callers s)(c \<mapsto> Returned (settled_string r)) \<rparr>"])
         (use j Cons.prems(1,2) in simp_all)
  qed
  have others: "\<forall>d\<in>set order. callers s1 d = callers s d"
    using notin callers1 by auto
  have pre: "\<forall>d\<in>set order. callers s1 d = Some (Owner p) \<or> callers s1 d = Some (Joiner p)"
    using others Cons.prems(4) by simp
  obtain s' where run': "run config (map Resume order) s1 = Some s'"
    and callers': "\<forall>d. callers s' d = (if d \<in> set order then Some (Returned (settled_string r)) else callers s1 d)"
    and requests': "requests s' = requests s1"
    and promises': "promises s' = promises s1"
    and refresh': "refreshPromise s' =
               (if \<exists>d\<in>set order. callers s1 d = Some (Owner p) then None else refreshPromise s1)"
    and cached': "cached s' =
               (if \<exists>d\<in>set order. callers s1 d = Some (Owner p)
                then (case r of Inl error \<Rightarrow> cached s1 | Inr t \<Rightarrow> Some t)
                else cached s1)"
    using Cons.IH [of s1] Cons.prems(1,2) dist pre promises1 by auto
  have ex_eq: "(\<exists>d\<in>set order. callers s1 d = Some (Owner p)) = (\<exists>d\<in>set order. callers s d = Some (Owner p))"
    using others by auto
  have "run config (map Resume (c # order)) s = Some s'"
    using s1 run' by simp
  moreover have "\<forall>d. callers s' d = (if d \<in> set (c # order) then Some (Returned (settled_string r)) else callers s d)"
    using callers' callers1 by auto
  moreover have "requests s' = requests s" using requests' requests1 by simp
  moreover have "promises s' = promises s" using promises' promises1 by simp
  moreover have "refreshPromise s' =
               (if \<exists>d\<in>set (c # order). callers s d = Some (Owner p) then None else refreshPromise s)"
    using refresh' refresh1 ex_eq by auto
  moreover have "cached s' =
               (if \<exists>d\<in>set (c # order). callers s d = Some (Owner p)
                then (case r of Inl error \<Rightarrow> cached s | Inr t \<Rightarrow> Some t)
                else cached s)"
    using cached' cached1 ex_eq by (auto split: sum.splits)
  ultimately show ?case by blast
qed

text \<open>
  Claim C2. From a client with no acquisition in flight, let \<open>N \<ge> 1\<close> fresh callers call
  \<^verbatim>\<open>getAccessToken\<close> one after another, each at a moment when no valid token is cached:
  the callers \<open>cs\<close> before the transport answers, the callers \<open>late\<close> (possibly none)
  after the answer has settled the promise and before any caller continues. Then the
  callers continue in any order. The run is possible, exactly one token request has gone
  out, every caller has returned the same outcome (the new token's string, or the same
  error), and the \<^verbatim>\<open>tokenRefreshPromise\<close> field is null again, whether the acquisition
  succeeded or failed.
\<close>

theorem getAccessToken_single_flight:
  assumes idle: "refreshPromise s = None"
    and nonempty: "cs \<noteq> []"
    and len: "length cs = length nows" "length late = length late_nows"
    and dist: "distinct (cs @ late)"
    and fresh: "\<forall>c\<in>set (cs @ late). callers s c = None"
    and miss: "\<forall>now\<in>set (nows @ late_nows). \<not> cached_valid s now"
    and perm: "distinct order \<and> set order = set (cs @ late)"
  shows "\<exists>s'. run config
                (calls cs nows @ [Respond (length (promises s)) outcome now']
                   @ calls late late_nows @ map Resume order) s
                = Some s'
           \<and> requests s' = requests s @ [acquireToken_request config]
           \<and> (\<forall>c\<in>set (cs @ late). callers s' c =
                  Some (Returned (settled_string (acquireToken_settle outcome now'))))
           \<and> refreshPromise s' = None"
proof -
  let ?p = "length (promises s)"
  let ?r = "acquireToken_settle outcome now'"
  obtain c0 cs' where cs: "cs = c0 # cs'" using nonempty by (cases cs) auto
  obtain n0 nows' where nows: "nows = n0 # nows'" using len cs by (cases nows) auto
  let ?s1 = "s\<lparr> refreshPromise := Some ?p,
                 promises := promises s @ [None],
                 requests := requests s @ [acquireToken_request config],
                 callers := (callers s)(c0 \<mapsto> Owner ?p) \<rparr>"
  have first: "step config (Call c0 n0) s = Some ?s1"
    using idle fresh miss cs nows by simp
  let ?s2 = "?s1\<lparr> callers := (\<lambda>c. if c \<in> set cs' then Some (Joiner ?p) else callers ?s1 c) \<rparr>"
  have joiners: "run config (calls cs' nows') ?s1 = Some ?s2"
  proof (rule run_joiners)
    show "length cs' = length nows'" using len cs nows by simp
    show "distinct cs'" using dist cs by simp
    show "\<forall>c\<in>set cs'. callers ?s1 c = None" using fresh dist cs by auto
    show "\<forall>now\<in>set nows'. \<not> cached_valid ?s1 now" using miss nows by (simp add: cached_valid_def)
    show "refreshPromise ?s1 = Some ?p" by simp
  qed
  have phase1: "run config (calls cs nows) s = Some ?s2"
    using first joiners cs nows by (simp add: calls_def)
  let ?s3 = "?s2\<lparr> promises := (promises ?s2)[?p := Some ?r] \<rparr>"
  have phase2: "step config (Respond ?p outcome now') ?s2 = Some ?s3"
    by (simp add: nth_append)
  let ?s4 = "?s3\<lparr> callers := (\<lambda>c. if c \<in> set late then Some (Joiner ?p) else callers ?s3 c) \<rparr>"
  have phase3: "run config (calls late late_nows) ?s3 = Some ?s4"
  proof (rule run_joiners)
    show "length late = length late_nows" using len by simp
    show "distinct late" using dist by simp
    show "\<forall>c\<in>set late. callers ?s3 c = None"
    proof
      fix c
      assume c: "c \<in> set late"
      then have "c \<noteq> c0" and "c \<notin> set cs'" using dist cs by auto
      moreover have "callers s c = None" using fresh c by simp
      ultimately show "callers ?s3 c = None" by simp
    qed
    show "\<forall>now\<in>set late_nows. \<not> cached_valid ?s3 now" using miss by (simp add: cached_valid_def)
    show "refreshPromise ?s3 = Some ?p" by simp
  qed
  have "\<exists>s'. run config (map Resume order) ?s4 = Some s'
           \<and> (\<forall>c. callers s' c = (if c \<in> set order then Some (Returned (settled_string ?r)) else callers ?s4 c))
           \<and> requests s' = requests ?s4
           \<and> promises s' = promises ?s4
           \<and> refreshPromise s' =
               (if \<exists>c\<in>set order. callers ?s4 c = Some (Owner ?p) then None else refreshPromise ?s4)
           \<and> cached s' =
               (if \<exists>c\<in>set order. callers ?s4 c = Some (Owner ?p)
                then (case ?r of Inl error \<Rightarrow> cached ?s4 | Inr t \<Rightarrow> Some t)
                else cached ?s4)"
  proof (rule run_resumes)
    show "?p < length (promises ?s4)" by simp
    show "promises ?s4 ! ?p = Some ?r" by (simp add: nth_append)
    show "distinct order" using perm by simp
    show "\<forall>c\<in>set order. callers ?s4 c = Some (Owner ?p) \<or> callers ?s4 c = Some (Joiner ?p)"
    proof
      fix c
      assume "c \<in> set order"
      then have "c = c0 \<or> c \<in> set cs' \<or> c \<in> set late" using perm cs by auto
      then show "callers ?s4 c = Some (Owner ?p) \<or> callers ?s4 c = Some (Joiner ?p)"
        by (cases "c \<in> set late"; cases "c \<in> set cs'") simp_all
    qed
  qed
  then obtain s' where phase4: "run config (map Resume order) ?s4 = Some s'"
    and callers': "\<forall>c. callers s' c = (if c \<in> set order then Some (Returned (settled_string ?r)) else callers ?s4 c)"
    and requests': "requests s' = requests ?s4"
    and refresh': "refreshPromise s' =
               (if \<exists>c\<in>set order. callers ?s4 c = Some (Owner ?p) then None else refreshPromise ?s4)"
    by blast
  have c0_early: "c0 \<notin> set late" "c0 \<notin> set cs'" using dist cs by auto
  have owner: "c0 \<in> set order \<and> callers ?s4 c0 = Some (Owner ?p)"
    using perm cs c0_early by simp
  have "run config (calls cs nows @ [Respond ?p outcome now'] @ calls late late_nows @ map Resume order) s
          = Some s'"
    using phase1 phase2 phase3 phase4 by (simp add: run_append)
  moreover have "requests s' = requests s @ [acquireToken_request config]"
    using requests' by simp
  moreover have "\<forall>c\<in>set (cs @ late). callers s' c = Some (Returned (settled_string ?r))"
    using callers' perm by simp
  moreover have "refreshPromise s' = None"
  proof -
    have "\<exists>c\<in>set order. callers ?s4 c = Some (Owner ?p)"
      using owner by blast
    then have "(if \<exists>c\<in>set order. callers ?s4 c = Some (Owner ?p) then None
                else refreshPromise ?s4) = None"
      by (rule if_P)
    with refresh' show ?thesis by (rule trans)
  qed
  ultimately show ?thesis by blast
qed

theorem getAccessToken_single_flight_witness:
  "(\<exists>s'. run fixture_oauth_config
           [Call 0 10, Call 1 10, Call 2 11,
            Respond 0 (Inr (token_body_ok ''concurrent-token'' 3600)) 20,
            Call 3 20,
            Resume 2, Resume 0, Resume 3, Resume 1] idle_client = Some s'
      \<and> requests s' = [acquireToken_request fixture_oauth_config]
      \<and> callers s' 0 = Some (Returned (Inr ''concurrent-token''))
      \<and> callers s' 1 = Some (Returned (Inr ''concurrent-token''))
      \<and> callers s' 2 = Some (Returned (Inr ''concurrent-token''))
      \<and> callers s' 3 = Some (Returned (Inr ''concurrent-token''))
      \<and> refreshPromise s' = None)
   \<and> (\<exists>s'. run fixture_oauth_config
           [Call 0 10, Call 1 10,
            Respond 0 (Inr (token_status 401)) 20,
            Resume 0, Resume 1] idle_client = Some s'
      \<and> requests s' = [acquireToken_request fixture_oauth_config]
      \<and> callers s' 0 = Some (Returned (Inl (CarrierIntegrationError AUTH_FAILED
                             ''OAuth token request failed with status 401'' (Some (Error ''HTTP 401'')))))
      \<and> callers s' 1 = Some (Returned (Inl (CarrierIntegrationError AUTH_FAILED
                             ''OAuth token request failed with status 401'' (Some (Error ''HTTP 401'')))))
      \<and> refreshPromise s' = None)"
proof (intro conjI)
  have r: "settled_string (acquireToken_settle (Inr (token_body_ok ''concurrent-token'' 3600)) 20)
             = Inr ''concurrent-token''"
    by (simp add: settled_string_def acquireToken_settle_def acquireToken_try_def token_body_ok_def)
  have r': "settled_string (acquireToken_settle (Inr (token_status 401)) 20)
             = Inl (CarrierIntegrationError AUTH_FAILED
                      ''OAuth token request failed with status 401'' (Some (Error ''HTTP 401'')))"
    by (simp add: settled_string_def acquireToken_settle_def acquireToken_try_def token_status_def
          acquireToken_catch_def int_toString_def nat_digits.simps)
  have i: "refreshPromise idle_client = None" "promises idle_client = []"
    "cached idle_client = None" "callers idle_client c = None" "requests idle_client = []" for c
    by (simp_all add: idle_client_def)
  have p: "distinct [2, 0, 3, 1 :: nat] \<and> set [2, 0, 3, 1 :: nat] = set ([0, 1, 2] @ [3])"
    by auto
  have p': "distinct [0, 1 :: nat] \<and> set [0, 1 :: nat] = set ([0, 1] @ [])"
    by auto
  show "\<exists>s'. run fixture_oauth_config
           [Call 0 10, Call 1 10, Call 2 11,
            Respond 0 (Inr (token_body_ok ''concurrent-token'' 3600)) 20,
            Call 3 20,
            Resume 2, Resume 0, Resume 3, Resume 1] idle_client = Some s'
      \<and> requests s' = [acquireToken_request fixture_oauth_config]
      \<and> callers s' 0 = Some (Returned (Inr ''concurrent-token''))
      \<and> callers s' 1 = Some (Returned (Inr ''concurrent-token''))
      \<and> callers s' 2 = Some (Returned (Inr ''concurrent-token''))
      \<and> callers s' 3 = Some (Returned (Inr ''concurrent-token''))
      \<and> refreshPromise s' = None"
    using getAccessToken_single_flight [of idle_client "[0, 1, 2]" "[10, 10, 11]" "[3]" "[20]"
            "[2, 0, 3, 1]"
            fixture_oauth_config "Inr (token_body_ok ''concurrent-token'' 3600)" 20, OF _ _ _ _ _ _ _ p]
    by (simp add: i calls_def cached_valid_def r del: run.simps)
  show "\<exists>s'. run fixture_oauth_config
           [Call 0 10, Call 1 10,
            Respond 0 (Inr (token_status 401)) 20,
            Resume 0, Resume 1] idle_client = Some s'
      \<and> requests s' = [acquireToken_request fixture_oauth_config]
      \<and> callers s' 0 = Some (Returned (Inl (CarrierIntegrationError AUTH_FAILED
                             ''OAuth token request failed with status 401'' (Some (Error ''HTTP 401'')))))
      \<and> callers s' 1 = Some (Returned (Inl (CarrierIntegrationError AUTH_FAILED
                             ''OAuth token request failed with status 401'' (Some (Error ''HTTP 401'')))))
      \<and> refreshPromise s' = None"
    using getAccessToken_single_flight [of idle_client "[0, 1]" "[10, 10]" "[]" "[]"
            "[0, 1]"
            fixture_oauth_config "Inr (token_status 401)" 20, OF _ _ _ _ _ _ _ p']
    by (simp add: i calls_def cached_valid_def r' del: run.simps)
qed

lemma single_caller_hit_agrees:
  assumes "callers a c = None" and "token s = cached a" and "hasValidToken pf s"
  shows "\<exists>a'. run config [Call c (Date_now pf (world s))] a = Some a'
           \<and> callers a' c = Some (Returned (fst (getAccessToken pf config s)))
           \<and> cached a' = token (snd (getAccessToken pf config s))
           \<and> requests a' = requests a"
  using assms
  by (simp add: getAccessToken_def hasValidToken_def cached_valid_def)

lemma single_caller_miss_agrees:
  assumes "refreshPromise a = None" and "callers a c = None"
    and "token s = cached a" and "tokenRefreshPromise s = None"
    and "\<not> hasValidToken pf s"
    and "oauth_httpClient pf (acquireToken_request config) (world s) = (outcome, w')"
  shows "\<exists>a'. run config [Call c (Date_now pf (world s)),
                           Respond (length (promises a)) outcome (Date_now pf w'),
                           Resume c] a = Some a'
           \<and> callers a' c = Some (Returned (fst (getAccessToken pf config s)))
           \<and> cached a' = token (snd (getAccessToken pf config s))
           \<and> refreshPromise a' = None
           \<and> tokenRefreshPromise (snd (getAccessToken pf config s)) = None
           \<and> requests a' = requests a @ [acquireToken_request config]"
proof -
  have miss: "\<not> cached_valid a (Date_now pf (world s))"
    using assms(3,5) by (simp add: hasValidToken_def cached_valid_def)
  show ?thesis
  proof (cases "acquireToken_settle outcome (Date_now pf w')")
    case (Inl error)
    then show ?thesis
      using assms miss getAccessToken_miss [OF assms(5,4,6)]
      by (simp add: nth_append)
  next
    case (Inr newToken)
    then show ?thesis
      using assms miss getAccessToken_miss [OF assms(5,4,6)]
      by (simp add: nth_append)
  qed
qed


end
